theory Spec2Isabelle
  imports Complex_Main
begin

section \<open>Data model of the backtesting framework\<close>

text \<open>
  The development embeds \<^verbatim>\<open>src/examples/backtest_framework.py\<close>: the regime-based risk
  calculator, the context lookup, the event loop of \<^verbatim>\<open>BacktestEngine.run_backtest\<close>, the
  bar-by-bar trade simulator and \<^verbatim>\<open>PerformanceAnalytics.calculate_metrics\<close>.

  Conventions of the embedding.
  \<^item> A \<^verbatim>\<open>pd.Timestamp\<close> is the integer count of nanoseconds since the Unix epoch (UTC);
    a difference of two timestamps is an integer number of nanoseconds. The 64-bit range
    of these counts is not modelled.
  \<^item> Finite floating-point values are idealised as exact reals: rounding and overflow of
    finite arithmetic are not modelled. The special values that the source's arithmetic
    produces from finite operands (a quotient by zero, the square root of a negative
    number) are modelled explicitly, by the type \<open>npfloat\<close>.
  \<^item> A \<^verbatim>\<open>DataFrame\<close> is the list of its rows in row order, each row carrying its index.
    A context frame also carries its column names, and a row has a cell in every column:
    NaN where the record it was built from had no value.
  \<^item> The price columns hold finite values.
  \<^item> A dictionary with string keys is a map from strings.
\<close>

type_synonym timestamp = int

definition ns_per_hour :: int where
  "ns_per_hour = 3600000000000"

definition ns_per_day :: int where
  "ns_per_day = 86400000000000"

subsection \<open>Floating-point values with infinities and NaN\<close>

datatype npfloat = Fin real | PInf | NInf | NaN

fun np_neg :: "npfloat \<Rightarrow> npfloat" where
  "np_neg (Fin a) = Fin (- a)"
| "np_neg PInf = NInf"
| "np_neg NInf = PInf"
| "np_neg NaN = NaN"

fun np_abs :: "npfloat \<Rightarrow> npfloat" where
  "np_abs (Fin a) = Fin \<bar>a\<bar>"
| "np_abs PInf = PInf"
| "np_abs NInf = PInf"
| "np_abs NaN = NaN"

fun np_add :: "npfloat \<Rightarrow> npfloat \<Rightarrow> npfloat" where
  "np_add (Fin a) (Fin b) = Fin (a + b)"
| "np_add NaN y = NaN"
| "np_add x NaN = NaN"
| "np_add PInf NInf = NaN"
| "np_add NInf PInf = NaN"
| "np_add PInf y = PInf"
| "np_add x PInf = PInf"
| "np_add NInf y = NInf"
| "np_add x NInf = NInf"

definition np_sub :: "npfloat \<Rightarrow> npfloat \<Rightarrow> npfloat" where
  "np_sub x y = np_add x (np_neg y)"

text \<open>The sign of a product with an infinite factor; zero times infinity is NaN.\<close>

definition inf_signed :: "real \<Rightarrow> npfloat" where
  "inf_signed s = (if s = 0 then NaN else if 0 < s then PInf else NInf)"

fun np_mul :: "npfloat \<Rightarrow> npfloat \<Rightarrow> npfloat" where
  "np_mul (Fin a) (Fin b) = Fin (a * b)"
| "np_mul NaN y = NaN"
| "np_mul x NaN = NaN"
| "np_mul (Fin a) PInf = inf_signed a"
| "np_mul (Fin a) NInf = inf_signed (- a)"
| "np_mul PInf (Fin b) = inf_signed b"
| "np_mul NInf (Fin b) = inf_signed (- b)"
| "np_mul PInf PInf = PInf"
| "np_mul PInf NInf = NInf"
| "np_mul NInf PInf = NInf"
| "np_mul NInf NInf = PInf"

text \<open>
  Division of \<^verbatim>\<open>numpy.float64\<close> values does not raise: a non-zero finite value over zero
  is an infinity, zero over zero is NaN (the zero divisor is taken as \<open>+0.0\<close>, which is
  what \<^verbatim>\<open>abs\<close> returns in the one division of the source that is not guarded).
\<close>

fun np_div :: "npfloat \<Rightarrow> npfloat \<Rightarrow> npfloat" where
  "np_div (Fin a) (Fin b) = (if b = 0 then inf_signed a else Fin (a / b))"
| "np_div NaN y = NaN"
| "np_div x NaN = NaN"
| "np_div (Fin a) PInf = Fin 0"
| "np_div (Fin a) NInf = Fin 0"
| "np_div PInf (Fin b) = (if 0 \<le> b then PInf else NInf)"
| "np_div NInf (Fin b) = (if 0 \<le> b then NInf else PInf)"
| "np_div PInf PInf = NaN"
| "np_div PInf NInf = NaN"
| "np_div NInf PInf = NaN"
| "np_div NInf NInf = NaN"

fun np_sqrt :: "npfloat \<Rightarrow> npfloat" where
  "np_sqrt (Fin a) = (if a < 0 then NaN else Fin (sqrt a))"
| "np_sqrt PInf = PInf"
| "np_sqrt NInf = NaN"
| "np_sqrt NaN = NaN"

text \<open>Comparisons: every comparison with NaN is false.\<close>

fun np_lt :: "npfloat \<Rightarrow> npfloat \<Rightarrow> bool" where
  "np_lt (Fin a) (Fin b) = (a < b)"
| "np_lt NaN y = False"
| "np_lt x NaN = False"
| "np_lt x NInf = False"
| "np_lt PInf y = False"
| "np_lt NInf y = True"
| "np_lt x PInf = True"

definition np_gt :: "npfloat \<Rightarrow> npfloat \<Rightarrow> bool" where
  "np_gt x y = np_lt y x"

fun np_le :: "npfloat \<Rightarrow> npfloat \<Rightarrow> bool" where
  "np_le (Fin a) (Fin b) = (a \<le> b)"
| "np_le NaN y = False"
| "np_le x NaN = False"
| "np_le NInf y = True"
| "np_le x PInf = True"
| "np_le PInf y = False"
| "np_le x NInf = False"

definition np_ge :: "npfloat \<Rightarrow> npfloat \<Rightarrow> bool" where
  "np_ge x y = np_le y x"

fun is_finite :: "npfloat \<Rightarrow> bool" where
  "is_finite (Fin a) = True"
| "is_finite PInf = False"
| "is_finite NInf = False"
| "is_finite NaN = False"

text \<open>\<^verbatim>\<open>sum(...)\<close> of Python: a left fold of addition starting at 0.\<close>

definition np_sum :: "npfloat list \<Rightarrow> npfloat" where
  "np_sum xs = foldl np_add (Fin 0) xs"

subsection \<open>Configuration\<close>

text \<open>
  \<^verbatim>\<open>BacktestConfig\<close>. The two date strings are represented by the timestamps that
  \<^verbatim>\<open>pd.Timestamp(..., tz='UTC')\<close> parses them to; the chart options play no part in the
  engine and are left out.
\<close>

record BacktestConfig =
  start_date :: timestamp
  end_date :: timestamp
  initial_capital :: real
  risk_per_trade :: real
  cooldown_hours :: int
  allowed_sessions :: "string list"

subsection \<open>The regime-based risk calculator\<close>

record GARCHRegimeRiskCalculator =
  low_vol_threshold :: real
  high_vol_threshold :: real
  sl_low :: real
  sl_med :: real
  sl_high :: real
  rr_ratio :: real

text \<open>
  The volatility reading comes out of a context row and may be NaN or infinite; the
  thresholds are finite.
\<close>

definition get_volatility_regime :: "GARCHRegimeRiskCalculator \<Rightarrow> npfloat \<Rightarrow> string" where
  "get_volatility_regime self garch_vol =
     (if np_lt garch_vol (Fin (low_vol_threshold self)) then ''LOW''
      else if np_lt garch_vol (Fin (high_vol_threshold self)) then ''MEDIUM''
      else ''HIGH'')"

text \<open>
  \<^verbatim>\<open>str.upper()\<close> on the letters of ASCII. No character outside ASCII has an upper-case
  form among the letters of \<^verbatim>\<open>LONG\<close> and \<^verbatim>\<open>BUY\<close>, so the membership test of the source
  is decided by the ASCII letters alone.
\<close>

definition upper_char :: "char \<Rightarrow> char" where
  "upper_char c =
     (let n = (of_char c :: nat) in if 97 \<le> n \<and> n \<le> 122 then char_of (n - 32) else c)"

definition upper :: "string \<Rightarrow> string" where
  "upper s = map upper_char s"

definition is_long :: "string \<Rightarrow> bool" where
  "is_long direction = (upper direction \<in> set [''LONG'', ''BUY''])"

definition calculate_stops ::
  "GARCHRegimeRiskCalculator \<Rightarrow> real \<Rightarrow> string \<Rightarrow> npfloat \<Rightarrow> real \<times> real" where
  "calculate_stops self entry_price direction garch_vol =
     (let regime = get_volatility_regime self garch_vol;
          sl_distance = (if regime = ''LOW'' then sl_low self
                         else if regime = ''MEDIUM'' then sl_med self
                         else sl_high self);
          tp_distance = sl_distance * rr_ratio self
      in if is_long direction
         then (entry_price - sl_distance, entry_price + tp_distance)
         else (entry_price + sl_distance, entry_price - tp_distance))"

subsection \<open>Sessions\<close>

text \<open>\<^verbatim>\<open>Timestamp.hour\<close>: the hour of the day, in \<open>0..23\<close>.\<close>

definition hour_of :: "timestamp \<Rightarrow> int" where
  "hour_of t = (t div ns_per_hour) mod 24"

definition session_of_hour :: "int \<Rightarrow> string" where
  "session_of_hour hour =
     (if 0 \<le> hour \<and> hour < 8 then ''Asian''
      else if 8 \<le> hour \<and> hour < 13 then ''London''
      else if 13 \<le> hour \<and> hour < 22 then ''New_York''
      else ''Off_Hours'')"

definition get_session :: "timestamp \<Rightarrow> string" where
  "get_session t = session_of_hour (hour_of t)"

subsection \<open>Price bars, signals and context snapshots\<close>

text \<open>A row of the price \<^verbatim>\<open>DataFrame\<close>: its index and the columns the engine reads.\<close>

record PriceBar =
  bar_time :: timestamp
  Open :: real
  High :: real
  Low :: real
  Close :: real

text \<open>
  A row of the signal \<^verbatim>\<open>DataFrame\<close>. Further columns are passed to the confirmation
  module unread by the engine; they live in the extension of the record.
\<close>

record SignalEvent =
  sig_timestamp :: timestamp
  sig_direction :: string

text \<open>
  A context \<^verbatim>\<open>DataFrame\<close>: its column names and its indexed rows. A row has a cell in
  every column of the frame; where the record a row was built from had no value for a
  column, \<^verbatim>\<open>pd.DataFrame(records)\<close> has filled the cell with NaN. The cells of a row are
  given as a function of the column name, read on the columns of the frame only.
\<close>

record ContextFrame =
  frame_columns :: "string list"
  frame_rows :: "(timestamp \<times> (string \<Rightarrow> npfloat)) list"

text \<open>
  \<^verbatim>\<open>Series.to_dict()\<close> on a row: a dictionary whose keys are the columns of the frame.
\<close>

type_synonym snapshot = "string \<rightharpoonup> npfloat"

definition to_dict :: "string list \<Rightarrow> (string \<Rightarrow> npfloat) \<Rightarrow> snapshot" where
  "to_dict cols cells = (\<lambda>k. if k \<in> set cols then Some (cells k) else None)"

text \<open>\<^verbatim>\<open>load_jsonl_events\<close> returns \<^verbatim>\<open>None\<close> for a file without records, hence the option.\<close>

type_synonym context_frame = "ContextFrame option"

type_synonym fused_context = "string \<rightharpoonup> snapshot option"

definition get_nearest_context :: "context_frame \<Rightarrow> timestamp \<Rightarrow> snapshot option" where
  "get_nearest_context df t =
     (case df of
        None \<Rightarrow> None
      | Some frame \<Rightarrow>
          if length (frame_rows frame) = 0 then None
          else (let masked = filter (\<lambda>r. fst r \<le> t) (frame_rows frame)
                in if masked = [] then None
                   else Some (to_dict (frame_columns frame) (snd (last masked)))))"

text \<open>The loop over \<^verbatim>\<open>context_data.items()\<close>: one entry per configured source.\<close>

definition load_context :: "(string \<rightharpoonup> context_frame) \<Rightarrow> timestamp \<Rightarrow> fused_context" where
  "load_context context_data signal_time =
     (\<lambda>ctx_name. case context_data ctx_name of
                    None \<Rightarrow> None
                  | Some ctx_df \<Rightarrow> Some (get_nearest_context ctx_df signal_time))"

subsection \<open>Trades and the engine\<close>

record Trade =
  signal_time :: timestamp
  entry_time :: timestamp
  session :: string
  direction :: string
  entry_price :: real
  sl_price :: real
  tp_price :: real
  exit_type :: string
  exit_time :: timestamp
  exit_price :: real
  pnl :: npfloat
  r_multiple :: npfloat
  equity :: npfloat
  garch_vol :: npfloat

text \<open>
  \<^verbatim>\<open>filter_stats\<close> is a dictionary with seven fixed keys, each a counter that starts at
  zero and is only ever incremented.
\<close>

record FilterStats =
  total_signals :: nat
  cooldown_blocked :: nat
  session_blocked :: nat
  no_entry_bar :: nat
  no_context :: nat
  not_confirmed :: nat
  trades_executed :: nat

text \<open>
  The engine holds its configuration, a risk calculator (any implementation of
  \<^verbatim>\<open>calculate_stops\<close>) and an optional confirmation module (\<^verbatim>\<open>confirm_signal\<close>).
\<close>

record BacktestEngine =
  config :: BacktestConfig
  risk_calculator :: "real \<Rightarrow> string \<Rightarrow> npfloat \<Rightarrow> real \<times> real"
  confirmation :: "(SignalEvent \<Rightarrow> fused_context \<Rightarrow> real \<Rightarrow> bool) option"

text \<open>
  The state that an iteration of the loop of \<^verbatim>\<open>run_backtest\<close> reads and writes: the
  locals \<^verbatim>\<open>equity\<close> and \<^verbatim>\<open>last_trade_time\<close>, and the three attributes of the engine.
\<close>

record RunState =
  loop_equity :: npfloat
  last_trade_time :: "timestamp option"
  trades :: "Trade list"
  equity_curve :: "(timestamp \<times> npfloat) list"
  filter_stats :: FilterStats

subsection \<open>The trade simulator\<close>

type_synonym trade_result = "string \<times> timestamp \<times> real \<times> npfloat"

text \<open>
  The loop over \<^verbatim>\<open>future_bars.iterrows()\<close>, returning at the first bar that resolves.
  The prices come out of \<^verbatim>\<open>DataFrame\<close> columns, so the quotient of the target branch is a
  division of \<^verbatim>\<open>numpy.float64\<close> values: on a zero stop distance it yields an infinity or
  NaN and does not raise.
\<close>

definition sl_hit :: "bool \<Rightarrow> PriceBar \<Rightarrow> real \<Rightarrow> bool" where
  "sl_hit long bar sl = (if long then Low bar \<le> sl else High bar \<ge> sl)"

definition tp_hit :: "bool \<Rightarrow> PriceBar \<Rightarrow> real \<Rightarrow> bool" where
  "tp_hit long bar tp = (if long then High bar \<ge> tp else Low bar \<le> tp)"

fun scan_bars :: "bool \<Rightarrow> real \<Rightarrow> real \<Rightarrow> real \<Rightarrow> PriceBar list \<Rightarrow> trade_result option" where
  "scan_bars long entry sl tp [] = None"
| "scan_bars long entry sl tp (bar # rest) =
     (if sl_hit long bar sl \<and> tp_hit long bar tp then Some (''SL'', bar_time bar, sl, Fin (- 1))
      else if sl_hit long bar sl then Some (''SL'', bar_time bar, sl, Fin (- 1))
      else if tp_hit long bar tp then
        Some (''TP'', bar_time bar, tp, np_div (Fin \<bar>tp - entry\<bar>) (Fin \<bar>sl - entry\<bar>))
      else scan_bars long entry sl tp rest)"

definition future_bars :: "PriceBar list \<Rightarrow> timestamp \<Rightarrow> nat \<Rightarrow> PriceBar list" where
  "future_bars price_data t max_bars = take max_bars (filter (\<lambda>b. bar_time b > t) price_data)"

definition simulate_trade ::
  "PriceBar list \<Rightarrow> timestamp \<Rightarrow> real \<Rightarrow> string \<Rightarrow> real \<Rightarrow> real \<Rightarrow> nat \<Rightarrow> trade_result option" where
  "simulate_trade price_data t_entry p_entry dir sl tp max_bars =
     scan_bars (is_long dir) p_entry sl tp (future_bars price_data t_entry max_bars)"

definition default_max_bars :: nat where
  "default_max_bars = 10080"

subsection \<open>One iteration of the signal loop\<close>

text \<open>
  The way an iteration ends: at one of the five \<^verbatim>\<open>continue\<close> statements, with a trade,
  or by falling through when the simulator returns \<^verbatim>\<open>None\<close>. The tag is not a value of
  the source; it names the branch taken, so that the iterations that fall through can be
  counted.
\<close>

datatype disposition =
  CooldownBlocked | SessionBlocked | NoEntryBar | NoContext | NotConfirmed
  | Unresolved | Executed

definition bump_total :: "RunState \<Rightarrow> RunState" where
  "bump_total st =
     st\<lparr>filter_stats := (filter_stats st)\<lparr>total_signals := total_signals (filter_stats st) + 1\<rparr>\<rparr>"

definition cooldown_active :: "BacktestEngine \<Rightarrow> RunState \<Rightarrow> timestamp \<Rightarrow> bool" where
  "cooldown_active eng st t =
     (case last_trade_time st of
        None \<Rightarrow> False
      | Some prev \<Rightarrow> t - prev < cooldown_hours (config eng) * ns_per_hour)"

definition entry_bar_after :: "PriceBar list \<Rightarrow> timestamp \<Rightarrow> PriceBar option" where
  "entry_bar_after price_data t =
     (case filter (\<lambda>b. bar_time b > t) price_data of [] \<Rightarrow> None | bar # _ \<Rightarrow> Some bar)"

definition rejected_by_confirmation ::
  "BacktestEngine \<Rightarrow> SignalEvent \<Rightarrow> fused_context \<Rightarrow> real \<Rightarrow> bool" where
  "rejected_by_confirmation eng sig ctx price =
     (case confirmation eng of
        None \<Rightarrow> False
      | Some confirm_signal \<Rightarrow> \<not> confirm_signal sig ctx price)"

definition record_trade ::
  "BacktestEngine \<Rightarrow> RunState \<Rightarrow> timestamp \<Rightarrow> PriceBar \<Rightarrow> string \<Rightarrow> string \<Rightarrow> real \<Rightarrow> real
     \<Rightarrow> npfloat \<Rightarrow> trade_result \<Rightarrow> RunState" where
  "record_trade eng st t bar sess dir sl tp vol res =
     (case res of (x_type, x_time, x_price, r) \<Rightarrow>
        (let pnl_v = np_mul (Fin (risk_per_trade (config eng))) r;
             eq = np_add (loop_equity st) pnl_v;
             trade = \<lparr>signal_time = t, entry_time = bar_time bar, session = sess,
                      direction = dir, entry_price = Open bar, sl_price = sl, tp_price = tp,
                      exit_type = x_type, exit_time = x_time, exit_price = x_price,
                      pnl = pnl_v, r_multiple = r, equity = eq, garch_vol = vol\<rparr>
         in st\<lparr>loop_equity := eq,
               trades := trades st @ [trade],
               equity_curve := equity_curve st @ [(t, eq)],
               filter_stats := (filter_stats st)
                 \<lparr>trades_executed := trades_executed (filter_stats st) + 1\<rparr>,
               last_trade_time := Some t\<rparr>))"

definition process_signal ::
  "BacktestEngine \<Rightarrow> PriceBar list \<Rightarrow> (string \<rightharpoonup> context_frame) \<Rightarrow> RunState \<Rightarrow> SignalEvent
     \<Rightarrow> disposition \<times> RunState" where
  "process_signal eng price_data context_data st0 sig =
     (let t = sig_timestamp sig;
          st = bump_total st0
      in if cooldown_active eng st t then
           (CooldownBlocked,
            st\<lparr>filter_stats := (filter_stats st)
                 \<lparr>cooldown_blocked := cooldown_blocked (filter_stats st) + 1\<rparr>\<rparr>)
         else
           let sess = get_session t
           in if sess \<notin> set (allowed_sessions (config eng)) then
                (SessionBlocked,
                 st\<lparr>filter_stats := (filter_stats st)
                      \<lparr>session_blocked := session_blocked (filter_stats st) + 1\<rparr>\<rparr>)
              else
                case entry_bar_after price_data t of
                  None \<Rightarrow>
                    (NoEntryBar,
                     st\<lparr>filter_stats := (filter_stats st)
                          \<lparr>no_entry_bar := no_entry_bar (filter_stats st) + 1\<rparr>\<rparr>)
                | Some bar \<Rightarrow>
                    let ctx = load_context context_data t
                    in case (case ctx ''garch'' of None \<Rightarrow> None | Some g \<Rightarrow> g) of
                         None \<Rightarrow>
                           (NoContext,
                            st\<lparr>filter_stats := (filter_stats st)
                                 \<lparr>no_context := no_context (filter_stats st) + 1\<rparr>\<rparr>)
                       | Some garch \<Rightarrow>
                           let vol = (case garch ''vol'' of None \<Rightarrow> Fin 30 | Some v \<Rightarrow> v)
                           in if rejected_by_confirmation eng sig ctx (Open bar) then
                                (NotConfirmed,
                                 st\<lparr>filter_stats := (filter_stats st)
                                      \<lparr>not_confirmed := not_confirmed (filter_stats st) + 1\<rparr>\<rparr>)
                              else
                                let dir = sig_direction sig;
                                    stops = risk_calculator eng (Open bar) dir vol;
                                    sl = fst stops;
                                    tp = snd stops
                                in case simulate_trade price_data (bar_time bar) (Open bar)
                                          dir sl tp default_max_bars of
                                     None \<Rightarrow> (Unresolved, st)
                                   | Some res \<Rightarrow>
                                       (Executed,
                                        record_trade eng st t bar sess dir sl tp vol res))"

subsection \<open>The run\<close>

text \<open>The \<^verbatim>\<open>for\<close> loop over the signals, in row order.\<close>

fun process_signals ::
  "BacktestEngine \<Rightarrow> PriceBar list \<Rightarrow> (string \<rightharpoonup> context_frame) \<Rightarrow> RunState
     \<Rightarrow> SignalEvent list \<Rightarrow> disposition list \<times> RunState" where
  "process_signals eng price_data context_data st [] = ([], st)"
| "process_signals eng price_data context_data st (sig # sigs) =
     (case process_signal eng price_data context_data st sig of
        (d, st') \<Rightarrow>
          (case process_signals eng price_data context_data st' sigs of
             (ds, st'') \<Rightarrow> (d # ds, st'')))"

datatype py_error = OverflowError

text \<open>
  \<^verbatim>\<open>timedelta(hours=h)\<close> raises \<^verbatim>\<open>OverflowError\<close> when the length in whole days, \<open>h div 24\<close>,
  has a magnitude above 999999999.
\<close>

definition timedelta_in_range :: "int \<Rightarrow> bool" where
  "timedelta_in_range h = (- 999999999 \<le> h div 24 \<and> h div 24 \<le> 999999999)"

definition zero_stats :: FilterStats where
  "zero_stats = \<lparr>total_signals = 0, cooldown_blocked = 0, session_blocked = 0,
                 no_entry_bar = 0, no_context = 0, not_confirmed = 0, trades_executed = 0\<rparr>"

definition initial_state :: "BacktestEngine \<Rightarrow> RunState" where
  "initial_state eng =
     \<lparr>loop_equity = Fin (initial_capital (config eng)),
      last_trade_time = None,
      trades = [],
      equity_curve = [(start_date (config eng), Fin (initial_capital (config eng)))],
      filter_stats = zero_stats\<rparr>"

definition in_date_range :: "BacktestEngine \<Rightarrow> SignalEvent list \<Rightarrow> SignalEvent list" where
  "in_date_range eng signals =
     filter (\<lambda>s. sig_timestamp s \<ge> start_date (config eng)
                \<and> sig_timestamp s \<le> end_date (config eng)) signals"

text \<open>
  The run up to the end of the loop: the dispositions of the signals processed, in
  order, and the final state; or the error raised before the state is initialised.
\<close>

definition run_loop ::
  "BacktestEngine \<Rightarrow> PriceBar list \<Rightarrow> SignalEvent list \<Rightarrow> (string \<rightharpoonup> context_frame)
     \<Rightarrow> py_error + (disposition list \<times> RunState)" where
  "run_loop eng price_data signals context_data =
     (if \<not> timedelta_in_range (cooldown_hours (config eng)) then Inl OverflowError
      else Inr (process_signals eng price_data context_data (initial_state eng)
                  (in_date_range eng signals)))"

definition run_backtest ::
  "BacktestEngine \<Rightarrow> PriceBar list \<Rightarrow> SignalEvent list \<Rightarrow> (string \<rightharpoonup> context_frame)
     \<Rightarrow> py_error + (Trade list \<times> (timestamp \<times> npfloat) list \<times> FilterStats)" where
  "run_backtest eng price_data signals context_data =
     (case run_loop eng price_data signals context_data of
        Inl e \<Rightarrow> Inl e
      | Inr (ds, st) \<Rightarrow> Inr (trades st, equity_curve st, filter_stats st))"

text \<open>The number of signals of a run whose simulation returned \<^verbatim>\<open>None\<close>.\<close>

definition unresolved_simulations ::
  "BacktestEngine \<Rightarrow> PriceBar list \<Rightarrow> SignalEvent list \<Rightarrow> (string \<rightharpoonup> context_frame) \<Rightarrow> nat" where
  "unresolved_simulations eng price_data signals context_data =
     (case run_loop eng price_data signals context_data of
        Inl e \<Rightarrow> 0
      | Inr (ds, st) \<Rightarrow> length (filter (\<lambda>d. d = Unresolved) ds))"

subsection \<open>Performance metrics\<close>

text \<open>
  \<^verbatim>\<open>np.mean\<close> and \<^verbatim>\<open>np.std(..., ddof=1)\<close>: the sum over the count, and the square root of
  the sum of the squared deviations from the mean over the count less one.
\<close>

definition np_mean :: "npfloat list \<Rightarrow> npfloat" where
  "np_mean xs = np_div (np_sum xs) (Fin (real (length xs)))"

definition np_std_ddof1 :: "npfloat list \<Rightarrow> npfloat" where
  "np_std_ddof1 xs =
     (let m = np_mean xs;
          sq = map (\<lambda>x. np_mul (np_sub x m) (np_sub x m)) xs
      in np_sqrt (np_div (np_sum sq) (Fin (real (length xs) - 1))))"

text \<open>
  The entries of the dictionary that \<^verbatim>\<open>calculate_metrics\<close> returns which depend only on the
  R-multiples and the signal times. The drawdown walk, the profit factor and the monthly
  breakdown are computed independently of these and are left out.
\<close>

record Metrics =
  total_trades :: nat
  total_r :: npfloat
  win_rate :: real
  avg_win :: npfloat
  avg_loss :: npfloat
  expectancy :: npfloat
  sharpe_ratio :: npfloat

text \<open>\<^verbatim>\<open>(last_trade - first_trade).days or 1\<close>: the whole days elapsed, or 1 when that is 0.\<close>

definition trading_days :: "Trade list \<Rightarrow> int" where
  "trading_days ts =
     (let days = (signal_time (last ts) - signal_time (hd ts)) div ns_per_day
      in if days \<noteq> 0 then days else 1)"

definition sharpe_of :: "Trade list \<Rightarrow> npfloat" where
  "sharpe_of ts =
     (let rs = map r_multiple ts
      in if length rs \<ge> 2 then
           (let mean_r = np_mean rs;
                std_r = np_std_ddof1 rs;
                trades_per_year = real (length ts) / real_of_int (trading_days ts) * 252
            in if np_gt std_r (Fin 0)
               then np_mul (np_div mean_r std_r) (np_sqrt (Fin trades_per_year))
               else Fin 0)
         else Fin 0)"

text \<open>
  An empty trade list yields the empty dictionary, here \<open>None\<close>. The count \<open>losses\<close> is
  the length less the wins, and the wins are never more than the length.
\<close>

definition calculate_metrics :: "Trade list \<Rightarrow> real \<Rightarrow> Metrics option" where
  "calculate_metrics ts capital =
     (if ts = [] then None
      else
        (let rs = map r_multiple ts;
             wins = length (filter (\<lambda>r. np_gt r (Fin 0)) rs);
             losses = length rs - wins;
             rate = real wins / real (length rs);
             gross_profit = np_sum (filter (\<lambda>r. np_gt r (Fin 0)) rs);
             gross_loss = np_abs (np_sum (filter (\<lambda>r. np_lt r (Fin 0)) rs));
             a_win = (if wins > 0 then np_div gross_profit (Fin (real wins)) else Fin 0);
             a_loss = (if losses > 0 then np_div gross_loss (Fin (real losses)) else Fin 0)
         in Some \<lparr>total_trades = length ts,
                  total_r = np_sum rs,
                  win_rate = rate,
                  avg_win = a_win,
                  avg_loss = a_loss,
                  expectancy = np_sub (np_mul (Fin rate) a_win) (np_mul (Fin (1 - rate)) a_loss),
                  sharpe_ratio = sharpe_of ts\<rparr>))"

section \<open>The specification's formulas\<close>

text \<open>
  The quantities of the specification's expectancy and Sharpe ratio, written from its
  words, to be compared with what \<open>calculate_metrics\<close> computes.
\<close>

definition spec_win_rate :: "npfloat list \<Rightarrow> real" where
  "spec_win_rate rs = real (length (filter (\<lambda>r. np_gt r (Fin 0)) rs)) / real (length rs)"

text \<open>The mean of the positive R-multiples, 0 when there is none.\<close>

definition spec_avg_win_R :: "npfloat list \<Rightarrow> npfloat" where
  "spec_avg_win_R rs =
     (let ps = filter (\<lambda>r. np_gt r (Fin 0)) rs
      in if ps = [] then Fin 0 else np_div (np_sum ps) (Fin (real (length ps))))"

text \<open>The mean of the absolute values of the strictly negative R-multiples, 0 when there is none.\<close>

definition spec_avg_loss_R :: "npfloat list \<Rightarrow> npfloat" where
  "spec_avg_loss_R rs =
     (let ns = filter (\<lambda>r. np_lt r (Fin 0)) rs
      in if ns = [] then Fin 0 else np_div (np_sum (map np_abs ns)) (Fin (real (length ns))))"

definition spec_expectancy :: "npfloat list \<Rightarrow> npfloat" where
  "spec_expectancy rs =
     np_sub (np_mul (Fin (spec_win_rate rs)) (spec_avg_win_R rs))
            (np_mul (Fin (1 - spec_win_rate rs)) (spec_avg_loss_R rs))"

text \<open>The days elapsed between the first and the last signal, floored at 1.\<close>

definition spec_elapsed_days :: "Trade list \<Rightarrow> int" where
  "spec_elapsed_days ts =
     max 1 ((signal_time (last ts) - signal_time (hd ts)) div ns_per_day)"

definition spec_sharpe :: "Trade list \<Rightarrow> npfloat" where
  "spec_sharpe ts =
     (let rs = map r_multiple ts
      in if length ts < 2 \<or> np_std_ddof1 rs = Fin 0 then Fin 0
         else np_mul (np_div (np_mean rs) (np_std_ddof1 rs))
                (np_sqrt (Fin (real (length ts) / real_of_int (spec_elapsed_days ts) * 252))))"

section \<open>Quantities of the loop invariants\<close>

text \<open>The sum of the five rejection counters.\<close>

definition rejections :: "FilterStats \<Rightarrow> nat" where
  "rejections fs = cooldown_blocked fs + session_blocked fs + no_entry_bar fs
                    + no_context fs + not_confirmed fs"

text \<open>
  The invariant of the signal loop on the ledger: every trade's P&L is the fixed risk
  amount times its R-multiple, its equity is the equity before it plus its P&L, the
  running equity is that of the last trade, the equity curve is the seed point followed
  by one point per trade, and \<open>last_trade_time\<close> is the signal time of the last trade.
\<close>

definition ledger_ok :: "BacktestEngine \<Rightarrow> RunState \<Rightarrow> bool" where
  "ledger_ok eng st =
     ((\<forall>i<length (trades st).
         pnl (trades st ! i) =
           np_mul (Fin (risk_per_trade (config eng))) (r_multiple (trades st ! i))
       \<and> equity (trades st ! i) =
           np_add (if i = 0 then Fin (initial_capital (config eng))
                   else equity (trades st ! (i - 1)))
                  (pnl (trades st ! i)))
    \<and> loop_equity st =
        (if trades st = [] then Fin (initial_capital (config eng))
         else equity (last (trades st)))
    \<and> equity_curve st =
        (start_date (config eng), Fin (initial_capital (config eng)))
        # map (\<lambda>t. (signal_time t, equity t)) (trades st)
    \<and> last_trade_time st =
        (if trades st = [] then None else Some (signal_time (last (trades st)))))"

section \<open>Concrete scenarios\<close>

text \<open>Inputs at which the theorems below are evaluated.\<close>

definition flat_bar :: "timestamp \<Rightarrow> real \<Rightarrow> real \<Rightarrow> PriceBar" where
  "flat_bar t lo hi = \<lparr>bar_time = t, Open = lo, High = hi, Low = lo, Close = hi\<rparr>"

text \<open>The risk calculator that \<^verbatim>\<open>main\<close> builds.\<close>

definition template_calculator :: GARCHRegimeRiskCalculator where
  "template_calculator =
     \<lparr>low_vol_threshold = 25, high_vol_threshold = 35,
      sl_low = 200, sl_med = 250, sl_high = 350, rr_ratio = 2\<rparr>"

definition hours :: "int \<Rightarrow> timestamp" where
  "hours h = h * ns_per_hour"

definition ex_config :: BacktestConfig where
  "ex_config =
     \<lparr>start_date = 0, end_date = hours 240, initial_capital = 100, risk_per_trade = 5,
      cooldown_hours = 12, allowed_sessions = [''London'', ''New_York'']\<rparr>"

definition ex_engine :: BacktestEngine where
  "ex_engine =
     \<lparr>config = ex_config, risk_calculator = calculate_stops template_calculator,
      confirmation = None\<rparr>"

definition ex_bars :: "PriceBar list" where
  "ex_bars =
     [\<lparr>bar_time = hours 9 + 1, Open = 1000, High = 1010, Low = 990, Close = 1000\<rparr>,
      \<lparr>bar_time = hours 9 + 2, Open = 1000, High = 1500, Low = 1000, Close = 1450\<rparr>,
      \<lparr>bar_time = hours 34, Open = 1000, High = 1001, Low = 999, Close = 1000\<rparr>,
      \<lparr>bar_time = hours 35, Open = 1000, High = 1001, Low = 999, Close = 1000\<rparr>]"

definition sig_at :: "timestamp \<Rightarrow> string \<Rightarrow> SignalEvent" where
  "sig_at t d = \<lparr>sig_timestamp = t, sig_direction = d\<rparr>"

text \<open>
  Five signals: one that trades, one inside the cooldown, one outside the allowed
  sessions, one whose simulation does not resolve, and one after the last bar.
\<close>

definition ex_signals :: "SignalEvent list" where
  "ex_signals =
     [sig_at (hours 9) ''LONG'', sig_at (hours 10) ''LONG'', sig_at (hours 23) ''LONG'',
      sig_at (hours 33) ''LONG'', sig_at (hours 40) ''LONG'']"

text \<open>The cells of a row built from a record: NaN in the columns the record has no value for.\<close>

definition cells_of :: "(string \<times> real) list \<Rightarrow> string \<Rightarrow> npfloat" where
  "cells_of record_fields =
     (\<lambda>k. case map_of record_fields k of None \<Rightarrow> NaN | Some v \<Rightarrow> Fin v)"

definition ex_context :: "string \<rightharpoonup> context_frame" where
  "ex_context =
     [''garch'' \<mapsto>
        Some \<lparr>frame_columns = [''vol''], frame_rows = [(0, cells_of [(''vol'', 20)])]\<rparr>]"

definition ex_trade :: Trade where
  "ex_trade =
     \<lparr>signal_time = hours 9, entry_time = hours 9 + 1, session = ''London'',
      direction = ''LONG'', entry_price = 1000, sl_price = 800, tp_price = 1400,
      exit_type = ''TP'', exit_time = hours 9 + 2, exit_price = 1400,
      pnl = Fin 10, r_multiple = Fin 2, equity = Fin 110, garch_vol = Fin 20\<rparr>"

definition ex_final_state :: RunState where
  "ex_final_state =
     \<lparr>loop_equity = Fin 110, last_trade_time = Some (hours 9), trades = [ex_trade],
      equity_curve = [(0, Fin 100), (hours 9, Fin 110)],
      filter_stats = \<lparr>total_signals = 5, cooldown_blocked = 1, session_blocked = 1,
                      no_entry_bar = 1, no_context = 0, not_confirmed = 0,
                      trades_executed = 1\<rparr>\<rparr>"

text \<open>A volatility source none of whose records has a \<^verbatim>\<open>vol\<close> field: a frame without that column.\<close>

definition ex_frame_no_vol :: ContextFrame where
  "ex_frame_no_vol =
     \<lparr>frame_columns = [''regime''], frame_rows = [(0, cells_of [(''regime'', 1)])]\<rparr>"

definition ex_context_no_vol :: "string \<rightharpoonup> context_frame" where
  "ex_context_no_vol = [''garch'' \<mapsto> Some ex_frame_no_vol]"

text \<open>
  A volatility source with two records, \<^verbatim>\<open>{vol: 20}\<close> at time 0 and \<^verbatim>\<open>{regime: 1}\<close> five hours
  later: the frame has both columns, and the later row has NaN in the column \<^verbatim>\<open>vol\<close>.
\<close>

definition ex_frame_nan_vol :: ContextFrame where
  "ex_frame_nan_vol =
     \<lparr>frame_columns = [''vol'', ''regime''],
      frame_rows = [(0, cells_of [(''vol'', 20)]), (hours 5, cells_of [(''regime'', 1)])]\<rparr>"

definition ex_context_nan_vol :: "string \<rightharpoonup> context_frame" where
  "ex_context_nan_vol = [''garch'' \<mapsto> Some ex_frame_nan_vol]"

definition ex_trade_default_vol :: Trade where
  "ex_trade_default_vol =
     \<lparr>signal_time = hours 9, entry_time = hours 9 + 1, session = ''London'',
      direction = ''LONG'', entry_price = 1000, sl_price = 750, tp_price = 1500,
      exit_type = ''TP'', exit_time = hours 9 + 2, exit_price = 1500,
      pnl = Fin 10, r_multiple = Fin 2, equity = Fin 110, garch_vol = Fin 30\<rparr>"

text \<open>The engine of the scenario with a negative cooldown, and one whose end date precedes its start date.\<close>

definition ex_engine_negative_cooldown :: BacktestEngine where
  "ex_engine_negative_cooldown = ex_engine\<lparr>config := ex_config\<lparr>cooldown_hours := - 1\<rparr>\<rparr>"

definition ex_engine_reversed_dates :: BacktestEngine where
  "ex_engine_reversed_dates =
     ex_engine\<lparr>config := ex_config\<lparr>start_date := hours 240, end_date := 0\<rparr>\<rparr>"

text \<open>A trade with a given signal time and R-multiple, the other fields those of \<open>ex_trade\<close>.\<close>

definition trade_with :: "timestamp \<Rightarrow> npfloat \<Rightarrow> Trade" where
  "trade_with t r = ex_trade\<lparr>signal_time := t, r_multiple := r\<rparr>"

text \<open>Ten trades: six winners of \<open>+2R\<close> and four losers of \<open>-1R\<close>.\<close>

definition ex_ten_trades :: "Trade list" where
  "ex_ten_trades =
     map (\<lambda>r. trade_with 0 (Fin r)) [2, 2, 2, 2, 2, 2, - 1, - 1, - 1, - 1]"

text \<open>Three trades whose signal times run backwards: five days, two days, zero.\<close>

definition ex_backward_trades :: "Trade list" where
  "ex_backward_trades =
     [trade_with (5 * ns_per_day) (Fin 1), trade_with (2 * ns_per_day) (Fin 2),
      trade_with 0 (Fin 3)]"

text \<open>The same trades in chronological order.\<close>

definition ex_forward_trades :: "Trade list" where
  "ex_forward_trades =
     [trade_with 0 (Fin 1), trade_with (2 * ns_per_day) (Fin 2),
      trade_with (5 * ns_per_day) (Fin 3)]"

section \<open>Sessions and stop placement\<close>

lemma hour_of_range: "0 \<le> hour_of t \<and> hour_of t < 24"
  by (simp add: hour_of_def)

text \<open>
  Claim C9. The session classification is total and partitions the 24 hours of the day:
  an hour \<open>h\<close> of \<open>0..23\<close> is Asian exactly when \<open>h < 8\<close>, London exactly when
  \<open>8 \<le> h < 13\<close>, New_York exactly when \<open>13 \<le> h < 22\<close> and Off_Hours exactly when
  \<open>22 \<le> h\<close>; the session of a timestamp is the session of its hour, which lies in \<open>0..23\<close>.
\<close>

theorem session_partition:
  assumes "0 \<le> h" and "h < 24"
  shows "(session_of_hour h = ''Asian'') = (h < 8)
       \<and> (session_of_hour h = ''London'') = (8 \<le> h \<and> h < 13)
       \<and> (session_of_hour h = ''New_York'') = (13 \<le> h \<and> h < 22)
       \<and> (session_of_hour h = ''Off_Hours'') = (22 \<le> h)
       \<and> get_session t = session_of_hour (hour_of t)
       \<and> 0 \<le> hour_of t \<and> hour_of t < 24"
  using assms by (auto simp: session_of_hour_def get_session_def hour_of_def)

theorem session_partition_witness:
  "session_of_hour 0 = ''Asian'' \<and> session_of_hour 7 = ''Asian''
   \<and> session_of_hour 8 = ''London'' \<and> session_of_hour 12 = ''London''
   \<and> session_of_hour 13 = ''New_York'' \<and> session_of_hour 21 = ''New_York''
   \<and> session_of_hour 22 = ''Off_Hours'' \<and> session_of_hour 23 = ''Off_Hours''"
  using session_partition [of 0 0] session_partition [of 7 0] session_partition [of 8 0]
    session_partition [of 12 0] session_partition [of 13 0] session_partition [of 21 0]
    session_partition [of 22 0] session_partition [of 23 0]
  by simp

lemma upper_char_idem: "upper_char (upper_char c) = upper_char c"
proof (cases "97 \<le> (of_char c :: nat) \<and> (of_char c :: nat) \<le> 122")
  case True
  then have "((of_char c :: nat) - 32) mod 256 = (of_char c :: nat) - 32"
    by (intro mod_less) arith
  with True show ?thesis by (auto simp add: upper_char_def Let_def)
next
  case False
  then have "upper_char c = c" by (auto simp add: upper_char_def Let_def)
  then show ?thesis by simp
qed

lemma upper_idem: "upper (upper d) = upper d"
  by (simp add: upper_def upper_char_idem)

lemma is_long_upper: "is_long (upper d) = is_long d"
  by (simp add: is_long_def upper_idem)

lemma is_long_names:
  "is_long ''BUY''" "is_long ''LONG''" "\<not> is_long ''SELL''" "\<not> is_long ''SHORT''"
  by code_simp+

text \<open>
  Claim C7. \<open>calculate_stops\<close> takes the stop distance of the regime of the volatility
  reading (LOW below the low threshold, MEDIUM from the low threshold up to but excluding
  the high one, HIGH otherwise), the target distance is the stop distance times the
  reward:risk ratio, a long entry has its stop below and its target above the entry and
  any other direction the reverse; the direction is matched whatever its case, BUY is
  read as LONG and SELL as SHORT. The statement is given for any reading, where a NaN
  falls under "otherwise", and again for a finite reading with the plain comparisons.
\<close>

theorem calculate_stops_regime:
  "calculate_stops self e d v =
     (let dist = (if np_lt v (Fin (low_vol_threshold self)) then sl_low self
                  else if np_le (Fin (low_vol_threshold self)) v
                          \<and> np_lt v (Fin (high_vol_threshold self))
                       then sl_med self
                  else sl_high self);
          tgt = dist * rr_ratio self
      in if upper d = ''LONG'' \<or> upper d = ''BUY'' then (e - dist, e + tgt)
         else (e + dist, e - tgt))
   \<and> calculate_stops self e d (Fin x) =
     (let dist = (if x < low_vol_threshold self then sl_low self
                  else if low_vol_threshold self \<le> x \<and> x < high_vol_threshold self
                       then sl_med self
                  else sl_high self);
          tgt = dist * rr_ratio self
      in if upper d = ''LONG'' \<or> upper d = ''BUY'' then (e - dist, e + tgt)
         else (e + dist, e - tgt))
   \<and> get_volatility_regime self v =
       (if np_lt v (Fin (low_vol_threshold self)) then ''LOW''
        else if np_le (Fin (low_vol_threshold self)) v
                \<and> np_lt v (Fin (high_vol_threshold self)) then ''MEDIUM''
        else ''HIGH'')
   \<and> get_volatility_regime self (Fin x) =
       (if x < low_vol_threshold self then ''LOW''
        else if low_vol_threshold self \<le> x \<and> x < high_vol_threshold self then ''MEDIUM''
        else ''HIGH'')
   \<and> calculate_stops self e (upper d) v = calculate_stops self e d v
   \<and> calculate_stops self e ''BUY'' v = calculate_stops self e ''LONG'' v
   \<and> calculate_stops self e ''SELL'' v = calculate_stops self e ''SHORT'' v"
proof -
  have between: "np_le (Fin a) v" if "\<not> np_lt v (Fin a)" and "np_lt v (Fin b)" for a b
    using that by (cases v) auto
  have regime: "get_volatility_regime self v =
       (if np_lt v (Fin (low_vol_threshold self)) then ''LOW''
        else if np_le (Fin (low_vol_threshold self)) v
                \<and> np_lt v (Fin (high_vol_threshold self)) then ''MEDIUM''
        else ''HIGH'')"
    using between [of "low_vol_threshold self" "high_vol_threshold self"]
    by (auto simp: get_volatility_regime_def)
  have regime_fin: "get_volatility_regime self (Fin x) =
       (if x < low_vol_threshold self then ''LOW''
        else if low_vol_threshold self \<le> x \<and> x < high_vol_threshold self then ''MEDIUM''
        else ''HIGH'')"
    by (auto simp: get_volatility_regime_def)
  have long: "is_long d = (upper d = ''LONG'' \<or> upper d = ''BUY'')"
    by (auto simp: is_long_def)
  have stops: "calculate_stops self e d v =
     (let dist = (if np_lt v (Fin (low_vol_threshold self)) then sl_low self
                  else if np_le (Fin (low_vol_threshold self)) v
                          \<and> np_lt v (Fin (high_vol_threshold self))
                       then sl_med self
                  else sl_high self);
          tgt = dist * rr_ratio self
      in if upper d = ''LONG'' \<or> upper d = ''BUY'' then (e - dist, e + tgt)
         else (e + dist, e - tgt))"
    unfolding calculate_stops_def regime long by (simp add: Let_def)
  have stops_fin: "calculate_stops self e d (Fin x) =
     (let dist = (if x < low_vol_threshold self then sl_low self
                  else if low_vol_threshold self \<le> x \<and> x < high_vol_threshold self
                       then sl_med self
                  else sl_high self);
          tgt = dist * rr_ratio self
      in if upper d = ''LONG'' \<or> upper d = ''BUY'' then (e - dist, e + tgt)
         else (e + dist, e - tgt))"
    unfolding calculate_stops_def regime_fin long by (simp add: Let_def)
  have names: "calculate_stops self e (upper d) v = calculate_stops self e d v"
    "calculate_stops self e ''BUY'' v = calculate_stops self e ''LONG'' v"
    "calculate_stops self e ''SELL'' v = calculate_stops self e ''SHORT'' v"
    by (simp_all add: calculate_stops_def is_long_upper is_long_names)
  from stops stops_fin regime regime_fin names show ?thesis by simp
qed

theorem calculate_stops_regime_witness:
  "calculate_stops template_calculator 100 ''long'' (Fin 20) = (- 100, 500)
   \<and> calculate_stops template_calculator 100 ''Sell'' (Fin 30) = (350, - 400)
   \<and> calculate_stops template_calculator 100 ''BUY'' (Fin 35) = (- 250, 800)
   \<and> calculate_stops template_calculator 100 ''LONG'' NaN = (- 250, 800)"
proof -
  have "upper ''long'' = ''LONG''" "upper ''Sell'' = ''SELL''" "upper ''BUY'' = ''BUY''"
    "upper ''LONG'' = ''LONG''"
    by code_simp+
  then show ?thesis
    using calculate_stops_regime [of template_calculator 100 "''long''" "Fin 20" 20]
      calculate_stops_regime [of template_calculator 100 "''Sell''" "Fin 30" 30]
      calculate_stops_regime [of template_calculator 100 "''BUY''" "Fin 35" 35]
      calculate_stops_regime [of template_calculator 100 "''LONG''" NaN 0]
    by (simp add: template_calculator_def)
qed

section \<open>The trade simulator\<close>

lemma scan_bars_skip:
  "\<forall>b\<in>set pre. \<not> sl_hit long b sl \<and> \<not> tp_hit long b tp \<Longrightarrow>
   scan_bars long e sl tp (pre @ bars) = scan_bars long e sl tp bars"
  by (induction pre) auto

lemma rr_nonneg:
  "sl \<noteq> e \<or> tp \<noteq> e \<Longrightarrow> np_ge (np_div (Fin \<bar>tp - e\<bar>) (Fin \<bar>sl - e\<bar>)) (Fin 0)"
  by (auto simp: np_ge_def inf_signed_def)

lemma scan_bars_result:
  "scan_bars long e sl tp bars = Some (x_type, x_time, x_price, r) \<Longrightarrow>
     (x_type = ''SL'' \<and> x_price = sl \<and> r = Fin (- 1))
   \<or> (x_type = ''TP'' \<and> x_price = tp \<and> r = np_div (Fin \<bar>tp - e\<bar>) (Fin \<bar>sl - e\<bar>))"
  by (induction bars) (auto split: if_splits)

lemma is_long_LONG: "is_long ''LONG''"
  by code_simp

text \<open>
  Claim C4 as stated fails where the stop, the target and the entry coincide: a bar above
  that price resolves at the target, and the R-multiple is the quotient of zero by zero,
  NaN, which is not \<open>\<ge> 0\<close>.
\<close>

theorem target_resolution_nan_counterexample:
  "simulate_trade [flat_bar 1 101 102] 0 100 ''LONG'' 100 100 default_max_bars
     = Some (''TP'', 1, 100, NaN)
   \<and> \<not> np_ge NaN (Fin 0)"
  by (simp add: simulate_trade_def future_bars_def flat_bar_def default_max_bars_def
      is_long_LONG sl_hit_def tp_hit_def inf_signed_def np_ge_def)

text \<open>
  Claim C4, amended. Let the bars scanned before \<open>bar\<close> cross neither level. If \<open>bar\<close>
  crosses both the stop and the target, or the stop alone, the outcome is a stop exit at
  \<open>bar\<close> with the stop as exit price and R-multiple \<open>-1\<close>; if it crosses the target alone,
  the outcome is a target exit with the target as exit price and R-multiple
  \<open>|target - entry| / |stop - entry|\<close>. That quotient is \<open>\<ge> 0\<close> unless the stop and the
  target both equal the entry. Every outcome of \<open>simulate_trade\<close> is of one of the two forms.
\<close>

theorem simulate_trade_resolution:
  assumes "\<forall>b\<in>set pre. \<not> sl_hit long b sl \<and> \<not> tp_hit long b tp"
  shows "(sl_hit long bar sl \<and> tp_hit long bar tp \<longrightarrow>
            scan_bars long e sl tp (pre @ bar # rest) = Some (''SL'', bar_time bar, sl, Fin (- 1)))
       \<and> (sl_hit long bar sl \<longrightarrow>
            scan_bars long e sl tp (pre @ bar # rest) = Some (''SL'', bar_time bar, sl, Fin (- 1)))
       \<and> (\<not> sl_hit long bar sl \<and> tp_hit long bar tp \<longrightarrow>
            scan_bars long e sl tp (pre @ bar # rest) =
              Some (''TP'', bar_time bar, tp, np_div (Fin \<bar>tp - e\<bar>) (Fin \<bar>sl - e\<bar>)))
       \<and> (sl \<noteq> e \<or> tp \<noteq> e \<longrightarrow> np_ge (np_div (Fin \<bar>tp - e\<bar>) (Fin \<bar>sl - e\<bar>)) (Fin 0))
       \<and> (\<forall>x_type x_time x_price r.
            simulate_trade price_data t_entry e dir sl tp n = Some (x_type, x_time, x_price, r) \<longrightarrow>
              (x_type = ''SL'' \<and> x_price = sl \<and> r = Fin (- 1))
            \<or> (x_type = ''TP'' \<and> x_price = tp \<and> r = np_div (Fin \<bar>tp - e\<bar>) (Fin \<bar>sl - e\<bar>)))"
  using scan_bars_skip [OF assms, of e "bar # rest"] rr_nonneg [of sl e tp]
    scan_bars_result [of "is_long dir" e sl tp "future_bars price_data t_entry n"]
  by (auto simp: simulate_trade_def)

theorem simulate_trade_resolution_witness:
  "scan_bars True 100 90 120 [flat_bar 1 95 105, flat_bar 2 89 121, flat_bar 3 100 100]
     = Some (''SL'', 2, 90, Fin (- 1))
   \<and> scan_bars True 100 90 120 [flat_bar 1 95 105, flat_bar 2 99 121, flat_bar 3 100 100]
     = Some (''TP'', 2, 120, Fin 2)"
  using simulate_trade_resolution [of "[flat_bar 1 95 105]" True 90 120 "flat_bar 2 89 121" 100
      "[flat_bar 3 100 100]" "[]" 0 "''LONG''" 0]
    simulate_trade_resolution [of "[flat_bar 1 95 105]" True 90 120 "flat_bar 2 99 121" 100
      "[flat_bar 3 100 100]" "[]" 0 "''LONG''" 0]
  by (simp add: flat_bar_def sl_hit_def tp_hit_def)

section \<open>The signal loop\<close>

lemmas ex_defs = ex_config_def ex_engine_def ex_bars_def sig_at_def ex_signals_def
  ex_context_def ex_trade_def ex_final_state_def hours_def ns_per_hour_def cells_of_def

lemma ex_stops: "calculate_stops template_calculator 1000 ''LONG'' (Fin 20) = (800, 1400)"
  by (simp add: calculate_stops_def get_volatility_regime_def template_calculator_def
      is_long_LONG Let_def)

lemma ex_run_loop:
  "run_loop ex_engine ex_bars ex_signals ex_context =
     Inr ([Executed, CooldownBlocked, SessionBlocked, Unresolved, NoEntryBar], ex_final_state)"
  by (simp add: run_loop_def timedelta_in_range_def in_date_range_def initial_state_def
      zero_stats_def process_signal_def bump_total_def cooldown_active_def get_session_def
      hour_of_def session_of_hour_def entry_bar_after_def load_context_def
      get_nearest_context_def to_dict_def rejected_by_confirmation_def ex_stops
      simulate_trade_def
      future_bars_def sl_hit_def tp_hit_def is_long_LONG default_max_bars_def record_trade_def
      ex_defs Let_def)

lemma ex_run_backtest:
  "run_backtest ex_engine ex_bars ex_signals ex_context =
     Inr ([ex_trade], [(0, Fin 100), (hours 9, Fin 110)], filter_stats ex_final_state)"
  by (simp add: run_backtest_def ex_run_loop ex_final_state_def)

lemma process_signal_counters:
  assumes "process_signal eng pd cd st sig = (d, st')"
  shows "total_signals (filter_stats st') = total_signals (filter_stats st) + 1
       \<and> rejections (filter_stats st') =
           rejections (filter_stats st) + (if d = Unresolved \<or> d = Executed then 0 else 1)
       \<and> trades_executed (filter_stats st') =
           trades_executed (filter_stats st) + (if d = Executed then 1 else 0)
       \<and> length (trades st') = length (trades st) + (if d = Executed then 1 else 0)"
  using assms
  by (auto simp: process_signal_def Let_def bump_total_def record_trade_def rejections_def
      split: option.splits if_splits prod.splits)

lemma process_signals_counters:
  "process_signals eng pd cd st sigs = (ds, st') \<Longrightarrow>
     total_signals (filter_stats st') = total_signals (filter_stats st) + length sigs
   \<and> rejections (filter_stats st') + length (filter (\<lambda>d. d = Unresolved) ds)
        + length (filter (\<lambda>d. d = Executed) ds)
      = rejections (filter_stats st) + length sigs
   \<and> trades_executed (filter_stats st') =
        trades_executed (filter_stats st) + length (filter (\<lambda>d. d = Executed) ds)
   \<and> length (trades st') = length (trades st) + length (filter (\<lambda>d. d = Executed) ds)"
proof (induction sigs arbitrary: st ds st')
  case Nil
  then show ?case by simp
next
  case (Cons sig sigs)
  obtain d st1 where step: "process_signal eng pd cd st sig = (d, st1)"
    by (cases "process_signal eng pd cd st sig")
  obtain ds1 st2 where rest: "process_signals eng pd cd st1 sigs = (ds1, st2)"
    by (cases "process_signals eng pd cd st1 sigs")
  from Cons.prems step rest have eq: "ds = d # ds1" "st' = st2" by auto
  from process_signal_counters [OF step] Cons.IH [OF rest] eq
  show ?case by auto
qed

text \<open>
  Claim C1. When \<open>run_backtest\<close> returns, the number of trades returned is the counter
  \<open>trades_executed\<close>, and \<open>total_signals\<close> is the sum of the five rejection counters, of
  \<open>trades_executed\<close> and of the number of signals whose simulation returned no outcome.
\<close>

theorem run_backtest_accounting:
  assumes "run_backtest eng pd sigs cd = Inr (ts, curve, fs)"
  shows "length ts = trades_executed fs
       \<and> total_signals fs =
           cooldown_blocked fs + session_blocked fs + no_entry_bar fs + no_context fs
           + not_confirmed fs + trades_executed fs + unresolved_simulations eng pd sigs cd"
proof -
  from assms obtain ds st where
    loop: "run_loop eng pd sigs cd = Inr (ds, st)"
    and res: "ts = trades st" "curve = equity_curve st" "fs = filter_stats st"
    by (auto simp: run_backtest_def split: sum.splits)
  from loop have ps:
    "process_signals eng pd cd (initial_state eng) (in_date_range eng sigs) = (ds, st)"
    by (auto simp: run_loop_def split: if_splits)
  have un: "unresolved_simulations eng pd sigs cd = length (filter (\<lambda>d. d = Unresolved) ds)"
    using loop by (simp add: unresolved_simulations_def)
  from process_signals_counters [OF ps] res un
  show ?thesis by (auto simp: initial_state_def zero_stats_def rejections_def)
qed

theorem run_backtest_accounting_witness:
  "run_backtest ex_engine ex_bars ex_signals ex_context =
     Inr ([ex_trade], [(0, Fin 100), (hours 9, Fin 110)], filter_stats ex_final_state)
   \<and> length [ex_trade] = trades_executed (filter_stats ex_final_state)
   \<and> total_signals (filter_stats ex_final_state) = 5
   \<and> unresolved_simulations ex_engine ex_bars ex_signals ex_context = 1
   \<and> total_signals (filter_stats ex_final_state) =
       cooldown_blocked (filter_stats ex_final_state)
       + session_blocked (filter_stats ex_final_state)
       + no_entry_bar (filter_stats ex_final_state) + no_context (filter_stats ex_final_state)
       + not_confirmed (filter_stats ex_final_state)
       + trades_executed (filter_stats ex_final_state)
       + unresolved_simulations ex_engine ex_bars ex_signals ex_context"
  using run_backtest_accounting [OF ex_run_backtest] ex_run_backtest
  by (simp add: unresolved_simulations_def ex_run_loop ex_final_state_def)

lemma process_signal_executed:
  assumes "process_signal eng pd cd st sig = (Executed, st')"
  shows "\<exists>tr. trades st' = trades st @ [tr]
            \<and> signal_time tr = sig_timestamp sig
            \<and> pnl tr = np_mul (Fin (risk_per_trade (config eng))) (r_multiple tr)
            \<and> equity tr = np_add (loop_equity st) (pnl tr)
            \<and> loop_equity st' = equity tr
            \<and> equity_curve st' = equity_curve st @ [(sig_timestamp sig, equity tr)]
            \<and> last_trade_time st' = Some (sig_timestamp sig)"
  using assms
  by (auto simp: process_signal_def Let_def bump_total_def record_trade_def
      split: option.splits if_splits prod.splits)

lemma process_signal_not_executed:
  assumes "process_signal eng pd cd st sig = (d, st')" and "d \<noteq> Executed"
  shows "trades st' = trades st \<and> loop_equity st' = loop_equity st
       \<and> equity_curve st' = equity_curve st \<and> last_trade_time st' = last_trade_time st"
  using assms
  by (auto simp: process_signal_def Let_def bump_total_def record_trade_def
      split: option.splits if_splits prod.splits)

lemma ledger_ok_initial: "ledger_ok eng (initial_state eng)"
  by (simp add: ledger_ok_def initial_state_def)

lemma ledger_ok_step:
  assumes inv: "ledger_ok eng st" and step: "process_signal eng pd cd st sig = (d, st')"
  shows "ledger_ok eng st'"
proof (cases "d = Executed")
  case False
  from process_signal_not_executed [OF step False] inv show ?thesis
    by (simp add: ledger_ok_def)
next
  case True
  with step have "process_signal eng pd cd st sig = (Executed, st')" by simp
  from process_signal_executed [OF this] obtain tr where
    tr: "trades st' = trades st @ [tr]" "signal_time tr = sig_timestamp sig"
        "pnl tr = np_mul (Fin (risk_per_trade (config eng))) (r_multiple tr)"
        "equity tr = np_add (loop_equity st) (pnl tr)"
        "loop_equity st' = equity tr"
        "equity_curve st' = equity_curve st @ [(sig_timestamp sig, equity tr)]"
        "last_trade_time st' = Some (sig_timestamp sig)"
    by blast
  have "\<And>i. i < length (trades st') \<Longrightarrow>
         pnl (trades st' ! i) =
           np_mul (Fin (risk_per_trade (config eng))) (r_multiple (trades st' ! i))
       \<and> equity (trades st' ! i) =
           np_add (if i = 0 then Fin (initial_capital (config eng))
                   else equity (trades st' ! (i - 1)))
                  (pnl (trades st' ! i))"
  proof -
    fix i assume i: "i < length (trades st')"
    show "pnl (trades st' ! i) =
           np_mul (Fin (risk_per_trade (config eng))) (r_multiple (trades st' ! i))
       \<and> equity (trades st' ! i) =
           np_add (if i = 0 then Fin (initial_capital (config eng))
                   else equity (trades st' ! (i - 1)))
                  (pnl (trades st' ! i))"
    proof (cases "i < length (trades st)")
      case True
      then have "i - 1 < length (trades st)" by simp
      with True inv tr(1) show ?thesis
        by (simp add: ledger_ok_def nth_append)
    next
      case False
      with i tr(1) have ieq: "i = length (trades st)" by simp
      show ?thesis
      proof (cases "trades st = []")
        case True
        with ieq inv tr show ?thesis by (simp add: ledger_ok_def)
      next
        case False
        then have "last (trades st) = trades st ! (length (trades st) - 1)"
          by (simp add: last_conv_nth)
        with False ieq inv tr show ?thesis
          by (simp add: ledger_ok_def nth_append)
      qed
    qed
  qed
  with inv tr show ?thesis
    by (simp add: ledger_ok_def)
qed

lemma ledger_ok_loop:
  "ledger_ok eng st \<Longrightarrow> process_signals eng pd cd st sigs = (ds, st') \<Longrightarrow> ledger_ok eng st'"
proof (induction sigs arbitrary: st ds st')
  case Nil
  then show ?case by simp
next
  case (Cons sig sigs)
  obtain d st1 where step: "process_signal eng pd cd st sig = (d, st1)"
    by (cases "process_signal eng pd cd st sig")
  obtain ds1 st2 where rest: "process_signals eng pd cd st1 sigs = (ds1, st2)"
    by (cases "process_signals eng pd cd st1 sigs")
  from Cons.prems(2) step rest have "st' = st2" by auto
  with Cons.IH [OF ledger_ok_step [OF Cons.prems(1) step] rest] show ?case by simp
qed

text \<open>
  Claim C5. After the loop, for every trade \<open>i\<close> of the run the P&L is the configured
  risk amount times the R-multiple and the recorded equity is the recorded equity of trade
  \<open>i - 1\<close> (the initial capital for the first trade) plus that P&L; the equity curve holds
  the seed point and then exactly one point per trade, at the trade's signal time with the
  trade's equity; there is one trade per executed signal. An iteration that executes
  appends exactly one trade and one equity point and sets \<open>last_trade_time\<close> to the
  timestamp of its signal.
\<close>

theorem executed_trades_ledger:
  assumes "run_loop eng pd sigs cd = Inr (ds, st)"
  shows "(\<forall>i<length (trades st).
            pnl (trades st ! i) =
              np_mul (Fin (risk_per_trade (config eng))) (r_multiple (trades st ! i))
          \<and> equity (trades st ! i) =
              np_add (if i = 0 then Fin (initial_capital (config eng))
                      else equity (trades st ! (i - 1)))
                     (pnl (trades st ! i)))
       \<and> equity_curve st =
           (start_date (config eng), Fin (initial_capital (config eng)))
           # map (\<lambda>t. (signal_time t, equity t)) (trades st)
       \<and> last_trade_time st =
           (if trades st = [] then None else Some (signal_time (last (trades st))))
       \<and> length (trades st) = length (filter (\<lambda>d. d = Executed) ds)
       \<and> run_backtest eng pd sigs cd = Inr (trades st, equity_curve st, filter_stats st)
       \<and> (\<forall>s0 sig s1. process_signal eng pd cd s0 sig = (Executed, s1) \<longrightarrow>
            (\<exists>tr. trades s1 = trades s0 @ [tr]
               \<and> signal_time tr = sig_timestamp sig
               \<and> pnl tr = np_mul (Fin (risk_per_trade (config eng))) (r_multiple tr)
               \<and> equity tr = np_add (loop_equity s0) (pnl tr)
               \<and> loop_equity s1 = equity tr
               \<and> equity_curve s1 = equity_curve s0 @ [(sig_timestamp sig, equity tr)]
               \<and> last_trade_time s1 = Some (sig_timestamp sig)))"
proof -
  from assms have ps:
    "process_signals eng pd cd (initial_state eng) (in_date_range eng sigs) = (ds, st)"
    by (auto simp: run_loop_def split: if_splits)
  have inv: "ledger_ok eng st"
    using ledger_ok_loop [OF ledger_ok_initial ps] .
  have len: "length (trades st) = length (filter (\<lambda>d. d = Executed) ds)"
    using process_signals_counters [OF ps] by (simp add: initial_state_def)
  have run: "run_backtest eng pd sigs cd = Inr (trades st, equity_curve st, filter_stats st)"
    using assms by (simp add: run_backtest_def)
  from inv len run process_signal_executed show ?thesis
    unfolding ledger_ok_def by blast
qed

theorem executed_trades_ledger_witness:
  "run_loop ex_engine ex_bars ex_signals ex_context =
     Inr ([Executed, CooldownBlocked, SessionBlocked, Unresolved, NoEntryBar], ex_final_state)
   \<and> trades ex_final_state = [ex_trade]
   \<and> pnl ex_trade = np_mul (Fin 5) (r_multiple ex_trade)
   \<and> equity ex_trade = np_add (Fin 100) (pnl ex_trade)
   \<and> equity_curve ex_final_state = [(0, Fin 100), (signal_time ex_trade, equity ex_trade)]
   \<and> last_trade_time ex_final_state = Some (signal_time ex_trade)"
  using executed_trades_ledger [OF ex_run_loop] ex_run_loop
  by (simp add: ex_final_state_def ex_trade_def)

section \<open>Single iterations: the unresolved simulation and the default volatility\<close>

lemmas step_defs = process_signal_def bump_total_def cooldown_active_def get_session_def
  hour_of_def session_of_hour_def entry_bar_after_def load_context_def
  get_nearest_context_def to_dict_def rejected_by_confirmation_def simulate_trade_def
  future_bars_def sl_hit_def tp_hit_def is_long_LONG default_max_bars_def record_trade_def

lemma ex_unresolved_step:
  "process_signal ex_engine ex_bars ex_context ex_final_state (sig_at (hours 33) ''LONG'') =
     (Unresolved,
      ex_final_state\<lparr>filter_stats := (filter_stats ex_final_state)\<lparr>total_signals := 6\<rparr>\<rparr>)"
  by (simp add: step_defs ex_stops ex_defs Let_def)

text \<open>
  Claim C8. An iteration falls through unresolved exactly when the signal passes the
  cooldown, session, entry-bar, context and confirmation gates and the simulator returns
  no outcome; the state after it is the state before it with \<open>total_signals\<close> incremented:
  no trade and no equity point is appended, the equity and \<open>last_trade_time\<close> are unchanged.
\<close>

theorem unresolved_simulation_frame:
  "(fst (process_signal eng pd cd st sig) = Unresolved) =
     (\<not> cooldown_active eng st (sig_timestamp sig)
      \<and> get_session (sig_timestamp sig) \<in> set (allowed_sessions (config eng))
      \<and> (\<exists>bar garch.
            entry_bar_after pd (sig_timestamp sig) = Some bar
          \<and> load_context cd (sig_timestamp sig) ''garch'' = Some (Some garch)
          \<and> \<not> rejected_by_confirmation eng sig (load_context cd (sig_timestamp sig)) (Open bar)
          \<and> (let vol = (case garch ''vol'' of None \<Rightarrow> Fin 30 | Some v \<Rightarrow> v);
                  stops = risk_calculator eng (Open bar) (sig_direction sig) vol
              in simulate_trade pd (bar_time bar) (Open bar) (sig_direction sig)
                   (fst stops) (snd stops) default_max_bars = None)))
   \<and> (fst (process_signal eng pd cd st sig) = Unresolved \<longrightarrow>
        snd (process_signal eng pd cd st sig) =
          st\<lparr>filter_stats := (filter_stats st)
               \<lparr>total_signals := total_signals (filter_stats st) + 1\<rparr>\<rparr>
      \<and> trades (snd (process_signal eng pd cd st sig)) = trades st
      \<and> equity_curve (snd (process_signal eng pd cd st sig)) = equity_curve st
      \<and> loop_equity (snd (process_signal eng pd cd st sig)) = loop_equity st
      \<and> last_trade_time (snd (process_signal eng pd cd st sig)) = last_trade_time st)"
  by (auto simp: process_signal_def Let_def bump_total_def cooldown_active_def
      split: option.splits if_splits prod.splits)

theorem unresolved_simulation_frame_witness:
  "fst (process_signal ex_engine ex_bars ex_context ex_final_state (sig_at (hours 33) ''LONG''))
     = Unresolved
   \<and> snd (process_signal ex_engine ex_bars ex_context ex_final_state
            (sig_at (hours 33) ''LONG''))
     = ex_final_state\<lparr>filter_stats := (filter_stats ex_final_state)\<lparr>total_signals := 6\<rparr>\<rparr>
   \<and> trades (snd (process_signal ex_engine ex_bars ex_context ex_final_state
                    (sig_at (hours 33) ''LONG''))) = [ex_trade]
   \<and> last_trade_time (snd (process_signal ex_engine ex_bars ex_context ex_final_state
                    (sig_at (hours 33) ''LONG''))) = Some (hours 9)"
  using unresolved_simulation_frame
    [of ex_engine ex_bars ex_context ex_final_state "sig_at (hours 33) ''LONG''"]
  by (simp add: ex_unresolved_step) (simp add: ex_final_state_def)

lemma ex_stops_default:
  "calculate_stops template_calculator 1000 ''LONG'' (Fin 30) = (750, 1500)"
  by (simp add: calculate_stops_def get_volatility_regime_def template_calculator_def
      is_long_LONG Let_def)

lemma ex_stops_nan: "calculate_stops template_calculator 1000 ''LONG'' NaN = (650, 1700)"
  by (simp add: calculate_stops_def get_volatility_regime_def template_calculator_def
      is_long_LONG Let_def)

lemma ex_default_vol_step:
  "process_signal ex_engine ex_bars ex_context_no_vol (initial_state ex_engine)
     (sig_at (hours 9) ''LONG'') =
     (Executed,
      \<lparr>loop_equity = Fin 110, last_trade_time = Some (hours 9),
       trades = [ex_trade_default_vol],
       equity_curve = [(0, Fin 100), (hours 9, Fin 110)],
       filter_stats = zero_stats\<lparr>total_signals := 1, trades_executed := 1\<rparr>\<rparr>)"
  by (simp add: step_defs ex_stops_default ex_defs ex_context_no_vol_def ex_frame_no_vol_def
      ex_trade_default_vol_def initial_state_def zero_stats_def Let_def)

lemma ex_nan_vol_step:
  "process_signal ex_engine ex_bars ex_context_nan_vol (initial_state ex_engine)
     (sig_at (hours 9) ''LONG'') =
     (Unresolved, (initial_state ex_engine)\<lparr>filter_stats := zero_stats\<lparr>total_signals := 1\<rparr>\<rparr>)"
  by (simp add: step_defs ex_stops_nan ex_defs ex_context_nan_vol_def ex_frame_nan_vol_def
      initial_state_def zero_stats_def Let_def)

lemma nearest_context_keys:
  assumes "get_nearest_context (Some frame) t = Some snap"
  shows "(snap k = None) = (k \<notin> set (frame_columns frame))"
  using assms
  by (auto simp: get_nearest_context_def to_dict_def Let_def split: if_splits)

text \<open>
  Claim C10 as stated fails on a snapshot without \<open>vol\<close> in a source that has the field
  elsewhere. The frame built from the records \<^verbatim>\<open>{vol: 20}\<close> and \<^verbatim>\<open>{regime: 1}\<close> has a column
  \<open>vol\<close>, and the row of the second record holds NaN there; the dictionary of that row has
  the key, so the default does not apply. For a signal after the second record the engine
  reads NaN, the risk calculator answers with the stops of the HIGH regime, 650 and 1700,
  and the simulation on them does not resolve; with the reading 30 the stops would be 750
  and 1500 and the signal would trade.
\<close>

theorem record_without_vol_counterexample:
  "get_nearest_context (Some ex_frame_nan_vol) (hours 9)
     = Some (to_dict [''vol'', ''regime''] (cells_of [(''regime'', 1)]))
   \<and> to_dict [''vol'', ''regime''] (cells_of [(''regime'', 1)]) ''vol'' = Some NaN
   \<and> process_signal ex_engine ex_bars ex_context_nan_vol (initial_state ex_engine)
        (sig_at (hours 9) ''LONG'')
      = (Unresolved, (initial_state ex_engine)\<lparr>filter_stats := zero_stats\<lparr>total_signals := 1\<rparr>\<rparr>)
   \<and> risk_calculator ex_engine 1000 ''LONG'' NaN = (650, 1700)
   \<and> risk_calculator ex_engine 1000 ''LONG'' (Fin 30) = (750, 1500)
   \<and> simulate_trade ex_bars (hours 9 + 1) 1000 ''LONG'' 650 1700 default_max_bars = None
   \<and> simulate_trade ex_bars (hours 9 + 1) 1000 ''LONG'' 750 1500 default_max_bars
      = Some (''TP'', hours 9 + 2, 1500, Fin 2)"
proof -
  have row: "get_nearest_context (Some ex_frame_nan_vol) (hours 9)
               = Some (to_dict [''vol'', ''regime''] (cells_of [(''regime'', 1)]))"
    by (simp add: get_nearest_context_def ex_frame_nan_vol_def hours_def ns_per_hour_def)
  have cell: "to_dict [''vol'', ''regime''] (cells_of [(''regime'', 1)]) ''vol'' = Some NaN"
    by (simp add: to_dict_def cells_of_def)
  have stops: "risk_calculator ex_engine 1000 ''LONG'' NaN = (650, 1700)"
    "risk_calculator ex_engine 1000 ''LONG'' (Fin 30) = (750, 1500)"
    by (simp_all add: ex_engine_def ex_stops_nan ex_stops_default)
  have sim: "simulate_trade ex_bars (hours 9 + 1) 1000 ''LONG'' 650 1700 default_max_bars = None"
    "simulate_trade ex_bars (hours 9 + 1) 1000 ''LONG'' 750 1500 default_max_bars
       = Some (''TP'', hours 9 + 2, 1500, Fin 2)"
    by (simp_all add: simulate_trade_def future_bars_def sl_hit_def tp_hit_def is_long_LONG
        default_max_bars_def ex_bars_def hours_def ns_per_hour_def)
  from row cell ex_nan_vol_step stops sim show ?thesis by simp
qed

text \<open>
  Claim C10, amended. A signal that passes the cooldown, session and entry-bar gates and
  for which the \<open>garch\<close> source has a row at or before the signal time is not rejected at
  the context gate. The dictionary of that row lacks the key \<open>vol\<close> exactly when the frame
  has no such column. In that case, unless the confirmation module rejects the signal, the
  stops are those of the risk calculator at the volatility 30 and the iteration ends with
  the outcome of the simulation on them; a trade that is recorded has these stops and the
  volatility 30.
\<close>

theorem missing_vol_defaults:
  assumes "\<not> cooldown_active eng st (sig_timestamp sig)"
    and "get_session (sig_timestamp sig) \<in> set (allowed_sessions (config eng))"
    and "entry_bar_after pd (sig_timestamp sig) = Some bar"
    and "cd ''garch'' = Some (Some frame)"
    and "get_nearest_context (Some frame) (sig_timestamp sig) = Some garch"
  shows "fst (process_signal eng pd cd st sig) \<noteq> NoContext
       \<and> (garch ''vol'' = None) = (''vol'' \<notin> set (frame_columns frame))
       \<and> (''vol'' \<notin> set (frame_columns frame) \<longrightarrow>
            (\<not> rejected_by_confirmation eng sig (load_context cd (sig_timestamp sig)) (Open bar)
               \<longrightarrow>
               process_signal eng pd cd st sig =
                 (let stops = risk_calculator eng (Open bar) (sig_direction sig) (Fin 30)
                  in case simulate_trade pd (bar_time bar) (Open bar) (sig_direction sig)
                            (fst stops) (snd stops) default_max_bars of
                       None \<Rightarrow> (Unresolved, bump_total st)
                     | Some res \<Rightarrow>
                         (Executed,
                          record_trade eng (bump_total st) (sig_timestamp sig) bar
                            (get_session (sig_timestamp sig)) (sig_direction sig)
                            (fst stops) (snd stops) (Fin 30) res)))
          \<and> (fst (process_signal eng pd cd st sig) = Executed \<longrightarrow>
               garch_vol (last (trades (snd (process_signal eng pd cd st sig)))) = Fin 30
             \<and> (sl_price (last (trades (snd (process_signal eng pd cd st sig)))),
                 tp_price (last (trades (snd (process_signal eng pd cd st sig)))))
                = risk_calculator eng (Open bar) (sig_direction sig) (Fin 30)))"
proof -
  note keys = nearest_context_keys [OF assms(5), of "''vol''"]
  have gate: "fst (process_signal eng pd cd st sig) \<noteq> NoContext"
    using assms
    by (auto simp: process_signal_def Let_def bump_total_def cooldown_active_def
        load_context_def split: option.splits if_splits prod.splits)
  have default:
    "(\<not> rejected_by_confirmation eng sig (load_context cd (sig_timestamp sig)) (Open bar)
        \<longrightarrow>
        process_signal eng pd cd st sig =
          (let stops = risk_calculator eng (Open bar) (sig_direction sig) (Fin 30)
           in case simulate_trade pd (bar_time bar) (Open bar) (sig_direction sig)
                     (fst stops) (snd stops) default_max_bars of
                None \<Rightarrow> (Unresolved, bump_total st)
              | Some res \<Rightarrow>
                  (Executed,
                   record_trade eng (bump_total st) (sig_timestamp sig) bar
                     (get_session (sig_timestamp sig)) (sig_direction sig)
                     (fst stops) (snd stops) (Fin 30) res)))
   \<and> (fst (process_signal eng pd cd st sig) = Executed \<longrightarrow>
        garch_vol (last (trades (snd (process_signal eng pd cd st sig)))) = Fin 30
      \<and> (sl_price (last (trades (snd (process_signal eng pd cd st sig)))),
          tp_price (last (trades (snd (process_signal eng pd cd st sig)))))
         = risk_calculator eng (Open bar) (sig_direction sig) (Fin 30))"
    if "''vol'' \<notin> set (frame_columns frame)"
  proof -
    from that keys have "garch ''vol'' = None" by simp
    with assms show ?thesis
      by (auto simp: process_signal_def Let_def bump_total_def cooldown_active_def
          load_context_def record_trade_def
          split: option.splits if_splits prod.splits)
  qed
  from gate keys default show ?thesis by blast
qed

theorem missing_vol_defaults_witness:
  "\<not> cooldown_active ex_engine (initial_state ex_engine) (hours 9)
   \<and> get_session (hours 9) \<in> set (allowed_sessions (config ex_engine))
   \<and> entry_bar_after ex_bars (hours 9) = Some (hd ex_bars)
   \<and> ex_context_no_vol ''garch'' = Some (Some ex_frame_no_vol)
   \<and> get_nearest_context (Some ex_frame_no_vol) (hours 9)
       = Some (to_dict [''regime''] (cells_of [(''regime'', 1)]))
   \<and> ''vol'' \<notin> set (frame_columns ex_frame_no_vol)
   \<and> fst (process_signal ex_engine ex_bars ex_context_no_vol (initial_state ex_engine)
            (sig_at (hours 9) ''LONG'')) = Executed
   \<and> garch_vol (last (trades (snd (process_signal ex_engine ex_bars ex_context_no_vol
            (initial_state ex_engine) (sig_at (hours 9) ''LONG''))))) = Fin 30
   \<and> sl_price ex_trade_default_vol = 750 \<and> tp_price ex_trade_default_vol = 1500"
proof -
  have ts: "sig_timestamp (sig_at (hours 9) ''LONG'') = hours 9"
    by (simp add: sig_at_def)
  have h1: "\<not> cooldown_active ex_engine (initial_state ex_engine)
              (sig_timestamp (sig_at (hours 9) ''LONG''))"
    by (simp add: cooldown_active_def initial_state_def)
  have h2: "get_session (sig_timestamp (sig_at (hours 9) ''LONG''))
              \<in> set (allowed_sessions (config ex_engine))"
    by (simp add: get_session_def hour_of_def session_of_hour_def ex_defs)
  have h3: "entry_bar_after ex_bars (sig_timestamp (sig_at (hours 9) ''LONG''))
              = Some (hd ex_bars)"
    by (simp add: entry_bar_after_def ex_defs)
  have h4: "ex_context_no_vol ''garch'' = Some (Some ex_frame_no_vol)"
    by (simp add: ex_context_no_vol_def)
  have h5: "get_nearest_context (Some ex_frame_no_vol)
              (sig_timestamp (sig_at (hours 9) ''LONG''))
              = Some (to_dict [''regime''] (cells_of [(''regime'', 1)]))"
    by (simp add: get_nearest_context_def ex_frame_no_vol_def ex_defs)
  have h6: "''vol'' \<notin> set (frame_columns ex_frame_no_vol)"
    by (simp add: ex_frame_no_vol_def)
  from missing_vol_defaults
      [where eng = ex_engine and st = "initial_state ex_engine"
         and sig = "sig_at (hours 9) ''LONG''" and pd = ex_bars and bar = "hd ex_bars"
         and cd = ex_context_no_vol and frame = ex_frame_no_vol
         and garch = "to_dict [''regime''] (cells_of [(''regime'', 1)])",
       OF h1 h2 h3 h4 h5]
    h1 h2 h3 h4 h5 h6
  show ?thesis
    by (simp add: ex_default_vol_step ts ex_trade_default_vol_def)
qed

section \<open>Configurations that the specification calls invalid\<close>

lemmas run_defs = run_backtest_def run_loop_def timedelta_in_range_def in_date_range_def
  initial_state_def zero_stats_def

text \<open>
  Claim C2 as stated fails: \<open>run_backtest\<close> checks neither condition. With a cooldown of
  \<open>-1\<close> hours the run of the scenario processes all five signals and returns a trade; with
  the end date before the start date it returns normally, with an empty trade list.
\<close>

theorem no_validation_counterexample:
  "cooldown_hours (config ex_engine_negative_cooldown) < 0
   \<and> run_backtest ex_engine_negative_cooldown ex_bars ex_signals ex_context =
       Inr ([ex_trade], [(0, Fin 100), (hours 9, Fin 110)],
            \<lparr>total_signals = 5, cooldown_blocked = 0, session_blocked = 1, no_entry_bar = 1,
             no_context = 0, not_confirmed = 0, trades_executed = 1\<rparr>)
   \<and> end_date (config ex_engine_reversed_dates) < start_date (config ex_engine_reversed_dates)
   \<and> run_backtest ex_engine_reversed_dates ex_bars ex_signals ex_context =
       Inr ([], [(hours 240, Fin 100)], zero_stats)"
  by (simp add: run_defs step_defs ex_stops ex_defs ex_engine_negative_cooldown_def
      ex_engine_reversed_dates_def Let_def)

lemma in_range_empty:
  "end_date (config eng) < start_date (config eng) \<Longrightarrow> in_date_range eng sigs = []"
  by (auto simp: in_date_range_def filter_empty_conv)

lemma negative_cooldown_step:
  assumes neg: "cooldown_hours (config eng) < 0"
    and ord: "\<forall>l. last_trade_time st = Some l \<longrightarrow> l \<le> sig_timestamp sig"
    and step: "process_signal eng pd cd st sig = (d, st')"
  shows "cooldown_blocked (filter_stats st') = cooldown_blocked (filter_stats st)
       \<and> (\<forall>l. last_trade_time st' = Some l \<longrightarrow> l \<le> sig_timestamp sig)"
proof -
  have "cooldown_hours (config eng) * ns_per_hour < 0"
    using neg by (simp add: ns_per_hour_def)
  with ord have "\<not> cooldown_active eng (bump_total st) (sig_timestamp sig)"
    by (auto simp: cooldown_active_def bump_total_def split: option.splits)
  with step ord show ?thesis
    by (auto simp: process_signal_def Let_def bump_total_def record_trade_def
        split: option.splits if_splits prod.splits)
qed

lemma negative_cooldown_loop:
  assumes neg: "cooldown_hours (config eng) < 0"
  shows "sorted (map sig_timestamp sigs) \<Longrightarrow>
         \<forall>l. last_trade_time st = Some l \<longrightarrow> (\<forall>s\<in>set sigs. l \<le> sig_timestamp s) \<Longrightarrow>
         process_signals eng pd cd st sigs = (ds, st') \<Longrightarrow>
         cooldown_blocked (filter_stats st') = cooldown_blocked (filter_stats st)"
proof (induction sigs arbitrary: st ds st')
  case Nil
  then show ?case by simp
next
  case (Cons sig sigs)
  obtain d st1 where step: "process_signal eng pd cd st sig = (d, st1)"
    by (cases "process_signal eng pd cd st sig")
  obtain ds1 st2 where rest: "process_signals eng pd cd st1 sigs = (ds1, st2)"
    by (cases "process_signals eng pd cd st1 sigs")
  from Cons.prems(3) step rest have eq: "st' = st2" by auto
  from Cons.prems(2) have ord: "\<forall>l. last_trade_time st = Some l \<longrightarrow> l \<le> sig_timestamp sig"
    by simp
  note s1 = negative_cooldown_step [OF neg ord step]
  from Cons.prems(1) have le: "\<forall>s\<in>set sigs. sig_timestamp sig \<le> sig_timestamp s"
    and srt: "sorted (map sig_timestamp sigs)" by auto
  from s1 le have ord1:
    "\<forall>l. last_trade_time st1 = Some l \<longrightarrow> (\<forall>s\<in>set sigs. l \<le> sig_timestamp s)"
    by fastforce
  from Cons.IH [OF srt ord1 rest] s1 eq show ?case by simp
qed

text \<open>
  Claim C2, amended. \<open>run_backtest\<close> aborts before processing exactly when the cooldown is
  out of the range of \<^verbatim>\<open>timedelta\<close>, which no cooldown from \<open>-23999999976\<close> to \<open>-1\<close> hours
  is. In every other case it returns normally, having processed each signal of the date
  range: with a negative cooldown and signals in ascending time order the cooldown gate
  blocks none of them; with the end date before the start date no signal is in the range,
  and the result is the empty trade list, the seed equity point and counters all zero.
\<close>

theorem run_backtest_no_validation:
  "(run_backtest eng pd sigs cd = Inl OverflowError)
     = (\<not> timedelta_in_range (cooldown_hours (config eng)))
   \<and> (- 23999999976 \<le> cooldown_hours (config eng) \<and> cooldown_hours (config eng) < 0
        \<longrightarrow> timedelta_in_range (cooldown_hours (config eng)))
   \<and> (timedelta_in_range (cooldown_hours (config eng)) \<longrightarrow>
        (\<exists>ts curve fs. run_backtest eng pd sigs cd = Inr (ts, curve, fs)
           \<and> total_signals fs = length (in_date_range eng sigs)
           \<and> (cooldown_hours (config eng) < 0 \<and> sorted (map sig_timestamp sigs)
                \<longrightarrow> cooldown_blocked fs = 0)
           \<and> (end_date (config eng) < start_date (config eng) \<longrightarrow>
                ts = [] \<and> fs = zero_stats
              \<and> curve = [(start_date (config eng), Fin (initial_capital (config eng)))])))"
proof -
  have a: "(run_backtest eng pd sigs cd = Inl OverflowError)
             = (\<not> timedelta_in_range (cooldown_hours (config eng)))"
    by (auto simp: run_backtest_def run_loop_def split: prod.splits)
  have b: "- 23999999976 \<le> cooldown_hours (config eng) \<and> cooldown_hours (config eng) < 0
             \<longrightarrow> timedelta_in_range (cooldown_hours (config eng))"
    by (auto simp: timedelta_in_range_def)
  have c: "\<exists>ts curve fs. run_backtest eng pd sigs cd = Inr (ts, curve, fs)
           \<and> total_signals fs = length (in_date_range eng sigs)
           \<and> (cooldown_hours (config eng) < 0 \<and> sorted (map sig_timestamp sigs)
                \<longrightarrow> cooldown_blocked fs = 0)
           \<and> (end_date (config eng) < start_date (config eng) \<longrightarrow>
                ts = [] \<and> fs = zero_stats
              \<and> curve = [(start_date (config eng), Fin (initial_capital (config eng)))])"
    if ok: "timedelta_in_range (cooldown_hours (config eng))"
  proof -
    obtain ds st where
      ps: "process_signals eng pd cd (initial_state eng) (in_date_range eng sigs) = (ds, st)"
      by (cases "process_signals eng pd cd (initial_state eng) (in_date_range eng sigs)")
    with ok have run:
      "run_backtest eng pd sigs cd = Inr (trades st, equity_curve st, filter_stats st)"
      by (simp add: run_backtest_def run_loop_def)
    have tot: "total_signals (filter_stats st) = length (in_date_range eng sigs)"
      using process_signals_counters [OF ps] by (simp add: initial_state_def zero_stats_def)
    have cool: "cooldown_blocked (filter_stats st) = 0"
      if neg: "cooldown_hours (config eng) < 0" and srt: "sorted (map sig_timestamp sigs)"
    proof -
      have "sorted (map sig_timestamp (in_date_range eng sigs))"
        using srt by (simp add: in_date_range_def sorted_filter)
      from negative_cooldown_loop [OF neg this _ ps] show ?thesis
        by (simp add: initial_state_def zero_stats_def)
    qed
    have rev: "trades st = [] \<and> filter_stats st = zero_stats
               \<and> equity_curve st = [(start_date (config eng), Fin (initial_capital (config eng)))]"
      if "end_date (config eng) < start_date (config eng)"
      using ps in_range_empty [OF that, of sigs] by (auto simp: initial_state_def)
    from run tot cool rev show ?thesis by blast
  qed
  from a b c show ?thesis by blast
qed

theorem run_backtest_no_validation_witness:
  "timedelta_in_range (cooldown_hours (config ex_engine_negative_cooldown))
   \<and> cooldown_hours (config ex_engine_negative_cooldown) < 0
   \<and> sorted (map sig_timestamp ex_signals)
   \<and> run_backtest ex_engine_negative_cooldown ex_bars ex_signals ex_context
        \<noteq> Inl OverflowError
   \<and> length (in_date_range ex_engine_negative_cooldown ex_signals) = 5
   \<and> (\<exists>ts curve fs.
          run_backtest ex_engine_negative_cooldown ex_bars ex_signals ex_context
            = Inr (ts, curve, fs)
        \<and> total_signals fs = 5 \<and> cooldown_blocked fs = 0)"
proof -
  have h: "timedelta_in_range (cooldown_hours (config ex_engine_negative_cooldown))"
    "cooldown_hours (config ex_engine_negative_cooldown) < 0"
    "sorted (map sig_timestamp ex_signals)"
    "length (in_date_range ex_engine_negative_cooldown ex_signals) = 5"
    by (simp_all add: timedelta_in_range_def in_date_range_def ex_defs
        ex_engine_negative_cooldown_def)
  from run_backtest_no_validation
    [of ex_engine_negative_cooldown ex_bars ex_signals ex_context] h
  show ?thesis by auto
qed

section \<open>Performance metrics: the expectancy\<close>

lemma np_add_nonpos:
  "np_le acc (Fin 0) \<Longrightarrow> np_lt r (Fin 0) \<Longrightarrow>
     np_le (np_add acc r) (Fin 0) \<and> np_abs (np_add acc r) = np_add (np_abs acc) (np_abs r)"
  by (cases acc; cases r) auto

lemma np_abs_foldl_negatives:
  "np_le acc (Fin 0) \<Longrightarrow> \<forall>r\<in>set ns. np_lt r (Fin 0) \<Longrightarrow>
     np_abs (foldl np_add acc ns) = foldl np_add (np_abs acc) (map np_abs ns)"
proof (induction ns arbitrary: acc)
  case Nil
  then show ?case by simp
next
  case (Cons r ns)
  from Cons.prems have r: "np_lt r (Fin 0)" and rest: "\<forall>r\<in>set ns. np_lt r (Fin 0)"
    by simp_all
  from np_add_nonpos [OF Cons.prems(1) r] Cons.IH [OF _ rest] show ?case
    by simp
qed

lemma np_abs_sum_negatives:
  "\<forall>r\<in>set ns. np_lt r (Fin 0) \<Longrightarrow> np_abs (np_sum ns) = np_sum (map np_abs ns)"
  using np_abs_foldl_negatives [of "Fin 0" ns] by (simp add: np_sum_def)

lemma losses_count:
  "length rs - length (filter P rs) = length (filter (\<lambda>r. \<not> P r) rs)"
  using sum_length_filter_compl [of P rs] by simp

text \<open>
  Claim C3 as stated fails on a trade with an R-multiple of exactly zero: such a trade is
  not a win, so the source counts it among the losses that divide the gross loss. For the
  R-multiples \<open>0\<close> and \<open>-1\<close> the average loss is \<open>1/2\<close> and the expectancy \<open>-1/2\<close>, where
  the mean of the absolute values of the strictly negative R-multiples is \<open>1\<close> and the
  claimed expectancy \<open>-1\<close>.
\<close>

theorem expectancy_counterexample:
  "map_option expectancy (calculate_metrics [trade_with 0 (Fin 0), trade_with 1 (Fin (- 1))] 100)
     = Some (Fin (- 1 / 2))
   \<and> map_option avg_loss (calculate_metrics [trade_with 0 (Fin 0), trade_with 1 (Fin (- 1))] 100)
     = Some (Fin (1 / 2))
   \<and> spec_avg_loss_R (map r_multiple [trade_with 0 (Fin 0), trade_with 1 (Fin (- 1))]) = Fin 1
   \<and> spec_expectancy (map r_multiple [trade_with 0 (Fin 0), trade_with 1 (Fin (- 1))])
     = Fin (- 1)"
  by (simp add: calculate_metrics_def spec_expectancy_def spec_avg_loss_R_def
      spec_avg_win_R_def spec_win_rate_def trade_with_def np_gt_def np_sum_def np_sub_def
      Let_def)

text \<open>
  Claim C3, amended. For a trade list that is not empty, the expectancy is the win rate
  times the average win less one minus the win rate times the average loss, where the win
  rate is the share of trades with an R-multiple above zero, the average win is the mean
  of the positive R-multiples (0 when there is none), and the average loss is the absolute
  sum of the strictly negative R-multiples over the number of trades that are not wins
  (0 when there is none). When every R-multiple is above or below zero, that average loss
  is the mean of the absolute values of the negative R-multiples, and the expectancy is
  the one of the specification.
\<close>

theorem expectancy_formula:
  assumes "ts \<noteq> []"
  shows "\<exists>m. calculate_metrics ts capital = Some m
      \<and> win_rate m = spec_win_rate (map r_multiple ts)
      \<and> avg_win m = spec_avg_win_R (map r_multiple ts)
      \<and> avg_loss m =
          (let losers = filter (\<lambda>r. \<not> np_gt r (Fin 0)) (map r_multiple ts)
           in if losers = [] then Fin 0
              else np_div (np_abs (np_sum (filter (\<lambda>r. np_lt r (Fin 0)) (map r_multiple ts))))
                     (Fin (real (length losers))))
      \<and> expectancy m =
          np_sub (np_mul (Fin (win_rate m)) (avg_win m))
                 (np_mul (Fin (1 - win_rate m)) (avg_loss m))
      \<and> ((\<forall>r\<in>set (map r_multiple ts). np_gt r (Fin 0) \<or> np_lt r (Fin 0)) \<longrightarrow>
            avg_loss m = spec_avg_loss_R (map r_multiple ts)
          \<and> expectancy m = spec_expectancy (map r_multiple ts))"
proof -
  define rs where "rs = map r_multiple ts"
  define m where "m = the (calculate_metrics ts capital)"
  have cm: "calculate_metrics ts capital = Some m"
    using assms by (simp add: m_def calculate_metrics_def Let_def)
  have wr: "win_rate m = spec_win_rate rs"
    using assms unfolding m_def calculate_metrics_def spec_win_rate_def Let_def rs_def [symmetric]
    by simp
  have aw: "avg_win m = spec_avg_win_R rs"
    using assms unfolding m_def calculate_metrics_def spec_avg_win_R_def Let_def rs_def [symmetric]
    by simp
  have al: "avg_loss m =
          (let losers = filter (\<lambda>r. \<not> np_gt r (Fin 0)) rs
           in if losers = [] then Fin 0
              else np_div (np_abs (np_sum (filter (\<lambda>r. np_lt r (Fin 0)) rs)))
                     (Fin (real (length losers))))"
    using assms unfolding m_def calculate_metrics_def Let_def rs_def [symmetric] losses_count
    by simp
  have ex: "expectancy m =
          np_sub (np_mul (Fin (win_rate m)) (avg_win m))
                 (np_mul (Fin (1 - win_rate m)) (avg_loss m))"
    using assms by (simp add: m_def calculate_metrics_def Let_def)
  have sp: "avg_loss m = spec_avg_loss_R rs \<and> expectancy m = spec_expectancy rs"
    if signed: "\<forall>r\<in>set rs. np_gt r (Fin 0) \<or> np_lt r (Fin 0)"
  proof -
    have "\<forall>r\<in>set rs. (\<not> np_gt r (Fin 0)) = np_lt r (Fin 0)"
    proof
      fix r assume "r \<in> set rs"
      with signed have "np_gt r (Fin 0) \<or> np_lt r (Fin 0)" by simp
      then show "(\<not> np_gt r (Fin 0)) = np_lt r (Fin 0)"
        by (cases r) (auto simp: np_gt_def)
    qed
    then have same: "filter (\<lambda>r. \<not> np_gt r (Fin 0)) rs = filter (\<lambda>r. np_lt r (Fin 0)) rs"
      by (intro filter_cong) auto
    have "np_abs (np_sum (filter (\<lambda>r. np_lt r (Fin 0)) rs))
            = np_sum (map np_abs (filter (\<lambda>r. np_lt r (Fin 0)) rs))"
      by (rule np_abs_sum_negatives) simp
    with al same have l: "avg_loss m = spec_avg_loss_R rs"
      by (simp add: spec_avg_loss_R_def Let_def)
    with ex wr aw show ?thesis
      by (simp add: spec_expectancy_def)
  qed
  from cm wr aw al ex sp show ?thesis
    unfolding rs_def by blast
qed

theorem expectancy_formula_witness:
  "ex_ten_trades \<noteq> []
   \<and> map_option win_rate (calculate_metrics ex_ten_trades 100) = Some (3 / 5)
   \<and> map_option expectancy (calculate_metrics ex_ten_trades 100) = Some (Fin (4 / 5))
   \<and> spec_expectancy (map r_multiple ex_ten_trades) = Fin (4 / 5)"
proof -
  have ne: "ex_ten_trades \<noteq> []"
    by (simp add: ex_ten_trades_def)
  have rs: "map r_multiple ex_ten_trades =
              map Fin [2, 2, 2, 2, 2, 2, - 1, - 1, - 1, - 1]"
    by (simp add: ex_ten_trades_def trade_with_def)
  have signed: "\<forall>r\<in>set (map r_multiple ex_ten_trades). np_gt r (Fin 0) \<or> np_lt r (Fin 0)"
    unfolding rs by (simp add: np_gt_def)
  have sp: "spec_expectancy (map r_multiple ex_ten_trades) = Fin (4 / 5)"
    unfolding rs
    by (simp add: spec_expectancy_def spec_win_rate_def spec_avg_win_R_def spec_avg_loss_R_def
        np_gt_def np_sum_def np_sub_def Let_def)
  have wr: "spec_win_rate (map r_multiple ex_ten_trades) = 3 / 5"
    unfolding rs by (simp add: spec_win_rate_def np_gt_def)
  from expectancy_formula [OF ne, of 100] signed obtain m where
    "calculate_metrics ex_ten_trades 100 = Some m"
    "win_rate m = spec_win_rate (map r_multiple ex_ten_trades)"
    "expectancy m = spec_expectancy (map r_multiple ex_ten_trades)"
    by blast
  with ne sp wr show ?thesis by simp
qed

section \<open>Performance metrics: the Sharpe ratio\<close>

lemma finite_list_conv: "(\<forall>r\<in>set rs. is_finite r) \<Longrightarrow> \<exists>xs. rs = map Fin xs"
proof (induction rs)
  case Nil
  then show ?case by simp
next
  case (Cons r rs)
  then obtain xs where "rs = map Fin xs" by auto
  moreover from Cons.prems obtain a where "r = Fin a" by (cases r) auto
  ultimately have "r # rs = map Fin (a # xs)" by simp
  then show ?case by (rule exI [of _ "a # xs"])
qed

lemma foldl_np_add_finite: "foldl np_add (Fin a) (map Fin xs) = Fin (a + sum_list xs)"
  by (induction xs arbitrary: a) (simp_all add: add.assoc)

lemma np_sum_finite: "np_sum (map Fin xs) = Fin (sum_list xs)"
  by (simp add: np_sum_def foldl_np_add_finite)

lemma np_mean_finite:
  "xs \<noteq> [] \<Longrightarrow> np_mean (map Fin xs) = Fin (sum_list xs / real (length xs))"
  by (simp add: np_mean_def np_sum_finite)

lemma np_std_finite:
  assumes "2 \<le> length xs"
  shows "\<exists>s. 0 \<le> s \<and> np_std_ddof1 (map Fin xs) = Fin s"
proof -
  from assms have ne: "xs \<noteq> []" by auto
  define m where "m = sum_list xs / real (length xs)"
  have sq: "map (\<lambda>x. np_mul (np_sub x (Fin m)) (np_sub x (Fin m))) (map Fin xs)
              = map Fin (map (\<lambda>x. (x - m) * (x - m)) xs)"
    by (simp add: np_sub_def)
  have nonneg: "0 \<le> sum_list (map (\<lambda>x. (x - m) * (x - m)) xs)"
    by (rule sum_list_nonneg) auto
  from assms have d: "real (length xs) - 1 \<noteq> 0" "0 < real (length xs) - 1" by auto
  have q: "0 \<le> sum_list (map (\<lambda>x. (x - m) * (x - m)) xs) / (real (length xs) - 1)"
    using d nonneg by (simp add: divide_nonneg_pos)
  then have nq: "\<not> sum_list (map (\<lambda>x. (x - m) * (x - m)) xs) / (real (length xs) - 1) < 0"
    by (simp add: not_less)
  have "np_std_ddof1 (map Fin xs) =
          Fin (sqrt (sum_list (map (\<lambda>x. (x - m) * (x - m)) xs) / (real (length xs) - 1)))"
    using d nq
    by (simp add: np_std_ddof1_def np_mean_finite [OF ne] m_def [symmetric] sq np_sum_finite
        Let_def del: map_map) 
  moreover have "0 \<le> sqrt (sum_list (map (\<lambda>x. (x - m) * (x - m)) xs) / (real (length xs) - 1))"
    using q by simp
  ultimately show ?thesis by blast
qed

lemma std_not_positive_finite:
  assumes "2 \<le> length rs" and "\<forall>r\<in>set rs. is_finite r"
  shows "(\<not> np_gt (np_std_ddof1 rs) (Fin 0)) = (np_std_ddof1 rs = Fin 0)"
proof -
  from finite_list_conv [OF assms(2)] obtain xs where xs: "rs = map Fin xs" by blast
  with assms(1) have "2 \<le> length xs" by simp
  from np_std_finite [OF this] xs obtain s where "0 \<le> s" "np_std_ddof1 rs = Fin s" by auto
  then show ?thesis by (auto simp: np_gt_def)
qed

lemma trading_days_floor:
  assumes "signal_time (hd ts) \<le> signal_time (last ts)"
  shows "trading_days ts = spec_elapsed_days ts"
proof -
  have "0 \<le> (signal_time (last ts) - signal_time (hd ts)) div ns_per_day"
    using assms by (simp add: ns_per_day_def pos_imp_zdiv_nonneg_iff)
  then show ?thesis
    by (auto simp: trading_days_def spec_elapsed_days_def Let_def max_def)
qed

text \<open>
  Claim C6 as stated fails on a trade list whose last signal is earlier than its first:
  the source replaces the elapsed days by 1 only when they are 0, and here they are
  \<open>-5\<close>, so the annualization factor is negative and its square root is NaN; with the
  days floored at 1 the Sharpe ratio would be \<open>2 * sqrt 756\<close>.
\<close>

theorem sharpe_counterexample:
  "map_option sharpe_ratio (calculate_metrics ex_backward_trades 100) = Some NaN
   \<and> spec_sharpe ex_backward_trades = Fin (2 * sqrt 756)
   \<and> trading_days ex_backward_trades = - 5
   \<and> spec_elapsed_days ex_backward_trades = 1"
  by (simp add: calculate_metrics_def sharpe_of_def spec_sharpe_def trading_days_def
      spec_elapsed_days_def np_std_ddof1_def np_mean_def np_sum_def np_sub_def np_gt_def
      ex_backward_trades_def trade_with_def ns_per_day_def Let_def)


text \<open>
  Claim C6, amended. An empty trade list yields the empty result. For a trade list that
  is not empty the Sharpe ratio is 0 when there are fewer than 2 trades or the sample
  standard deviation (divisor \<open>n - 1\<close>) of the R-multiples is not positive, and otherwise
  the mean over that standard deviation times the square root of the trade count over the
  elapsed days times 252, the elapsed whole days between the first and the last signal
  being replaced by 1 when they are 0. When the last signal is not earlier than the first,
  that is the elapsed days floored at 1; when moreover the R-multiples are finite, the
  standard deviation is not positive only when it is 0, and the Sharpe ratio is the one
  of the specification.
\<close>

theorem sharpe_ratio_formula:
  "calculate_metrics [] capital = None
   \<and> (ts \<noteq> [] \<longrightarrow>
        (\<exists>m. calculate_metrics ts capital = Some m
           \<and> sharpe_ratio m =
               (if length ts < 2 \<or> \<not> np_gt (np_std_ddof1 (map r_multiple ts)) (Fin 0)
                then Fin 0
                else np_mul (np_div (np_mean (map r_multiple ts))
                                    (np_std_ddof1 (map r_multiple ts)))
                       (np_sqrt (Fin (real (length ts)
                          / real_of_int
                              (let days = (signal_time (last ts) - signal_time (hd ts))
                                            div ns_per_day
                               in if days = 0 then 1 else days)
                          * 252))))
           \<and> (signal_time (hd ts) \<le> signal_time (last ts) \<longrightarrow>
                (let days = (signal_time (last ts) - signal_time (hd ts)) div ns_per_day
                 in if days = 0 then 1 else days) = spec_elapsed_days ts)
           \<and> (signal_time (hd ts) \<le> signal_time (last ts)
                \<and> (\<forall>r\<in>set (map r_multiple ts). is_finite r) \<longrightarrow>
                sharpe_ratio m = spec_sharpe ts)))"
proof -
  have empty: "calculate_metrics [] capital = None"
    by (simp add: calculate_metrics_def)
  have main: "\<exists>m. calculate_metrics ts capital = Some m
           \<and> sharpe_ratio m =
               (if length ts < 2 \<or> \<not> np_gt (np_std_ddof1 (map r_multiple ts)) (Fin 0)
                then Fin 0
                else np_mul (np_div (np_mean (map r_multiple ts))
                                    (np_std_ddof1 (map r_multiple ts)))
                       (np_sqrt (Fin (real (length ts)
                          / real_of_int
                              (let days = (signal_time (last ts) - signal_time (hd ts))
                                            div ns_per_day
                               in if days = 0 then 1 else days)
                          * 252))))
           \<and> (signal_time (hd ts) \<le> signal_time (last ts) \<longrightarrow>
                (let days = (signal_time (last ts) - signal_time (hd ts)) div ns_per_day
                 in if days = 0 then 1 else days) = spec_elapsed_days ts)
           \<and> (signal_time (hd ts) \<le> signal_time (last ts)
                \<and> (\<forall>r\<in>set (map r_multiple ts). is_finite r) \<longrightarrow>
                sharpe_ratio m = spec_sharpe ts)"
    if ne: "ts \<noteq> []"
  proof -
    define m where "m = the (calculate_metrics ts capital)"
    have cm: "calculate_metrics ts capital = Some m"
      using ne by (simp add: m_def calculate_metrics_def Let_def)
    have sh: "sharpe_ratio m = sharpe_of ts"
      using ne by (simp add: m_def calculate_metrics_def Let_def)
    have td: "trading_days ts =
                (let days = (signal_time (last ts) - signal_time (hd ts)) div ns_per_day
                 in if days = 0 then 1 else days)"
      by (simp add: trading_days_def Let_def)
    have f1: "sharpe_of ts =
               (if length ts < 2 \<or> \<not> np_gt (np_std_ddof1 (map r_multiple ts)) (Fin 0)
                then Fin 0
                else np_mul (np_div (np_mean (map r_multiple ts))
                                    (np_std_ddof1 (map r_multiple ts)))
                       (np_sqrt (Fin (real (length ts) / real_of_int (trading_days ts) * 252))))"
      by (auto simp: sharpe_of_def Let_def)
    have f2: "trading_days ts = spec_elapsed_days ts"
      if "signal_time (hd ts) \<le> signal_time (last ts)"
      using trading_days_floor [OF that] .
    have f3: "sharpe_of ts = spec_sharpe ts"
      if ord: "signal_time (hd ts) \<le> signal_time (last ts)"
        and fin: "\<forall>r\<in>set (map r_multiple ts). is_finite r"
    proof (cases "length ts < 2")
      case True
      then show ?thesis by (simp add: f1 spec_sharpe_def)
    next
      case False
      then have "2 \<le> length (map r_multiple ts)" by simp
      from std_not_positive_finite [OF this fin] False f2 [OF ord] show ?thesis
        by (simp add: f1 spec_sharpe_def Let_def)
    qed
    from cm sh f1 f2 f3 td show ?thesis by metis
  qed
  from empty main show ?thesis by blast
qed

theorem sharpe_ratio_formula_witness:
  "ex_forward_trades \<noteq> []
   \<and> signal_time (hd ex_forward_trades) \<le> signal_time (last ex_forward_trades)
   \<and> list_all is_finite (map r_multiple ex_forward_trades)
   \<and> spec_elapsed_days ex_forward_trades = 5
   \<and> map_option sharpe_ratio (calculate_metrics ex_forward_trades 100)
       = Some (spec_sharpe ex_forward_trades)
   \<and> spec_sharpe ex_forward_trades = Fin (2 * sqrt (756 / 5))"
proof -
  have ne: "ex_forward_trades \<noteq> []"
    by (simp add: ex_forward_trades_def)
  have ord: "signal_time (hd ex_forward_trades) \<le> signal_time (last ex_forward_trades)"
    by (simp add: ex_forward_trades_def trade_with_def ns_per_day_def)
  have fin: "\<forall>r\<in>set (map r_multiple ex_forward_trades). is_finite r"
    by (simp add: ex_forward_trades_def trade_with_def)
  have days: "spec_elapsed_days ex_forward_trades = 5"
    by (simp add: spec_elapsed_days_def ex_forward_trades_def trade_with_def ns_per_day_def)
  have sp: "spec_sharpe ex_forward_trades = Fin (2 * sqrt (756 / 5))"
    by (simp add: spec_sharpe_def spec_elapsed_days_def np_std_ddof1_def np_mean_def np_sum_def
        np_sub_def ex_forward_trades_def trade_with_def ns_per_day_def Let_def)
  from sharpe_ratio_formula [of 100 ex_forward_trades] ne ord fin obtain m where
    "calculate_metrics ex_forward_trades 100 = Some m" "sharpe_ratio m = spec_sharpe ex_forward_trades"
    by blast
  with ne ord fin days sp show ?thesis by (simp add: list_all_iff)
qed

end
